theory Spec2Isabelle
  imports Main "HOL-Library.Sublist"
begin

section \<open>JavaScript strings\<close>

text \<open>
  Strings of the program are modelled as HOL strings (lists of characters). The helpers
  below are the \<^verbatim>\<open>String.prototype\<close> methods the sources call, each with its
  argument order: \<open>startsWith s p\<close> is \<^verbatim>\<open>s.startsWith(p)\<close>.
\<close>

definition startsWith :: "string \<Rightarrow> string \<Rightarrow> bool" where
  "startsWith s p = prefix p s"

text \<open>\<^verbatim>\<open>s.substring(n)\<close> for \<open>0 \<le> n\<close>: the string from index \<open>n\<close> on.\<close>

definition substring_from :: "string \<Rightarrow> nat \<Rightarrow> string" where
  "substring_from s n = drop n s"

text \<open>
  \<^verbatim>\<open>s.indexOf(p)\<close>: the least index at which \<open>p\<close> occurs in \<open>s\<close>, \<open>None\<close> for -1.
\<close>

fun indexOf :: "string \<Rightarrow> string \<Rightarrow> nat option" where
  "indexOf [] p = (if p = [] then Some 0 else None)"
| "indexOf (c # s) p =
     (if prefix p (c # s) then Some 0 else map_option Suc (indexOf s p))"

definition includes_str :: "string \<Rightarrow> string \<Rightarrow> bool" where
  "includes_str s p = (indexOf s p \<noteq> None)"

text \<open>
  The replacement text of \<^verbatim>\<open>String.prototype.replace\<close> with a string pattern
  (ECMAScript GetSubstitution with no captures): in the replacement, \<^verbatim>\<open>$$\<close> is a
  dollar sign, \<^verbatim>\<open>$&\<close> the matched text, \<^verbatim>\<open>$`\<close> the text before the match and
  \<^verbatim>\<open>$'\<close> the text after it; every other character, and a dollar sign followed by
  anything else, stands for itself.
\<close>

fun getSubstitution :: "string \<Rightarrow> string \<Rightarrow> string \<Rightarrow> string \<Rightarrow> string" where
  "getSubstitution matched preceding following [] = []"
| "getSubstitution matched preceding following [c] = [c]"
| "getSubstitution matched preceding following (c # d # r) =
     (if c = CHR ''$'' \<and> d = CHR ''$'' then CHR ''$'' # getSubstitution matched preceding following r
      else if c = CHR ''$'' \<and> d = CHR ''&'' then matched @ getSubstitution matched preceding following r
      else if c = CHR ''$'' \<and> d = CHR 0x60 then preceding @ getSubstitution matched preceding following r
      else if c = CHR ''$'' \<and> d = CHR 0x27 then following @ getSubstitution matched preceding following r
      else c # getSubstitution matched preceding following (d # r))"

text \<open>
  \<^verbatim>\<open>s.replace(p, r)\<close> with a string pattern \<open>p\<close>: only the first occurrence of \<open>p\<close>
  is replaced; without an occurrence the string is returned as it is.
\<close>

definition replace :: "string \<Rightarrow> string \<Rightarrow> string \<Rightarrow> string" where
  "replace s p r =
     (case indexOf s p of
        None \<Rightarrow> s
      | Some i \<Rightarrow>
          (let preceding = take i s; following = drop (i + length p) s
           in preceding @ getSubstitution p preceding following r @ following))"

text \<open>
  \<^verbatim>\<open>s.trim()\<close>: white space and line terminators are removed at both ends. Of the
  characters JavaScript counts as such, those below code 256 are tab, line feed,
  vertical tab, form feed, carriage return, space and no-break space.
\<close>

definition isWhiteSpace :: "char \<Rightarrow> bool" where
  "isWhiteSpace c = (c \<in> set [CHR 0x09, CHR 0x0A, CHR 0x0B, CHR 0x0C, CHR 0x0D, CHR 0x20, CHR 0xA0])"

definition trim :: "string \<Rightarrow> string" where
  "trim s = rev (dropWhile isWhiteSpace (rev (dropWhile isWhiteSpace s)))"

text \<open>
  \<^verbatim>\<open>n.toString()\<close> for a number that is a natural number, as a port is: its decimal
  digits. (JavaScript writes a number from \<open>10\<^sup>2\<^sup>1\<close> on with an exponent; ports are far
  below.)
\<close>

definition digit :: "nat \<Rightarrow> char" where
  "digit d = ''0123456789'' ! d"

fun toString :: "nat \<Rightarrow> string" where
  "toString n = (if n < 10 then [digit n] else toString (n div 10) @ [digit (n mod 10)])"

declare toString.simps [simp del]


section \<open>The tail page worker (tailweb/tailweb\_worker.ts)\<close>

text \<open>
  The handler \<^verbatim>\<open>fetch(request, _env, _ctx)\<close> of the module worker. The platform
  supplies the \<^verbatim>\<open>URL\<close> parser, the \<^verbatim>\<open>Headers\<close> of the request and the global
  \<^verbatim>\<open>fetch\<close>; the constant \<^verbatim>\<open>TAILWEB_APP_DATA\<close> is imported from a module that
  is not part of the sources at hand. All of them are inputs of the model.
\<close>

text \<open>The fields of a parsed \<^verbatim>\<open>URL\<close> that the handler reads.\<close>

record url =
  href :: string
  origin :: string
  pathname :: string

text \<open>
  A request: its URL, its method and the entries its \<^verbatim>\<open>Headers\<close> object iterates
  (pairs of name and value, names in lower case as the platform yields them).
\<close>

record request =
  request_url :: string
  request_method :: string
  request_headers :: "(string \<times> string) list"

text \<open>A response as the handler builds it: status, the headers given, the body.\<close>

record response =
  status :: nat
  response_headers :: "(string \<times> string) list"
  response_body :: string

text \<open>The second argument of the global \<^verbatim>\<open>fetch\<close>; \<open>init_body = None\<close> is \<^verbatim>\<open>undefined\<close>.\<close>

record request_init =
  init_method :: string
  init_headers :: "(string \<times> string) list"
  init_body :: "string option"

text \<open>
  What the handler's promise rejects with: a \<^verbatim>\<open>Response\<close> object it throws itself,
  the \<^verbatim>\<open>TypeError\<close> of \<^verbatim>\<open>new URL\<close>, or the reason of a rejected global
  \<^verbatim>\<open>fetch\<close>.
\<close>

datatype thrown = ThrownResponse response | TypeError_InvalidURL string | FetchRejected string

text \<open>
  How a call of the handler ends. \<open>ReturnFetch u i k\<close> stands for awaiting the global
  \<^verbatim>\<open>fetch(u, i)\<close> and returning \<open>k\<close> of its response (a rejection of that fetch
  rejects the handler's promise as well); \<open>i = None\<close> is a call with the URL only.
\<close>

datatype outcome =
    Return response
  | Throw thrown
  | ReturnFetch string "request_init option" "response \<Rightarrow> response"

text \<open>
  The platform and the imported constant. \<open>new_URL s = None\<close> when \<^verbatim>\<open>new URL(s)\<close>
  throws. The page template of \<^verbatim>\<open>computeHtml\<close> is a literal text with three holes;
  its four pieces are \<open>html_pieces\<close>.
\<close>

record platform =
  new_URL :: "string \<Rightarrow> url option"
  TAILWEB_APP_DATA :: string
  html_pieces :: "string \<times> string \<times> string \<times> string"

text \<open>\<^verbatim>\<open>request.headers.get(name)\<close> for a lower-case name; \<open>None\<close> is \<^verbatim>\<open>null\<close>.\<close>

definition headers_get :: "(string \<times> string) list \<Rightarrow> string \<Rightarrow> string option" where
  "headers_get hs name = map_of hs name"

text \<open>A \<^verbatim>\<open>string | null\<close> inside a template literal.\<close>

definition template_nullable :: "string option \<Rightarrow> string" where
  "template_nullable v = (case v of None \<Rightarrow> ''null'' | Some s \<Rightarrow> s)"

definition computeHtml :: "platform \<Rightarrow> url \<Rightarrow> string" where
  "computeHtml W u =
     (case html_pieces W of (p1, p2, p3, p4) \<Rightarrow>
        p1 @ origin u @ p2 @ origin u @ p3 @ origin u @ p4)"

definition fetch :: "platform \<Rightarrow> request \<Rightarrow> outcome" where
  "fetch W request =
     (let cfConnectingIp = headers_get (request_headers request) ''cf-connecting-ip'' in
      case new_URL W (request_url request) of
        None \<Rightarrow> Throw (TypeError_InvalidURL (request_url request))
      | Some url \<Rightarrow>
          if pathname url = ''/'' then
            Return \<lparr>status = 200,
                    response_headers = [(''Content-Type'', ''text/html; charset=utf-8'')],
                    response_body = computeHtml W url\<rparr>
          else if pathname url = ''/app.js'' then
            ReturnFetch (TAILWEB_APP_DATA W) None
              (\<lambda>response.
                 \<lparr>status = 200,
                  response_headers = [(''Content-Type'', ''text/javascript; charset=utf-8'')],
                  response_body = response_body response\<rparr>)
          else if startsWith (pathname url) ''/fetch/'' then
            (let fetchUrlStr = ''https://'' @ substring_from (pathname url) (length ''/fetch/'') in
             case new_URL W fetchUrlStr of
               None \<Rightarrow> Throw (TypeError_InvalidURL fetchUrlStr)
             | Some fetchUrl \<Rightarrow>
                 if origin fetchUrl = ''https://api.cloudflare.com'' then
                   (let method = request_method request;
                        headers = filter (\<lambda>v. \<not> startsWith (fst v) ''cf-'') (request_headers request);
                        body = None
                    in ReturnFetch fetchUrlStr
                         (Some \<lparr>init_method = method, init_headers = headers, init_body = body\<rparr>)
                         (\<lambda>response. response))
                 else
                   Throw (ThrownResponse
                     \<lparr>status = 400, response_headers = [],
                      response_body = ''Unable to fetch '' @ href fetchUrl\<rparr>))
          else
            Return \<lparr>status = 200, response_headers = [],
                    response_body = ''hello '' @ template_nullable cfConnectingIp\<rparr>)"

text \<open>
  Running an outcome against a global \<^verbatim>\<open>fetch\<close> gives the settled promise of the
  handler: \<open>Inr\<close> a response, \<open>Inl\<close> what it rejects with.
\<close>

definition settle ::
  "(string \<Rightarrow> request_init option \<Rightarrow> thrown + response) \<Rightarrow> outcome \<Rightarrow> thrown + response" where
  "settle global_fetch out =
     (case out of
        Return r \<Rightarrow> Inr r
      | Throw t \<Rightarrow> Inl t
      | ReturnFetch u i k \<Rightarrow>
          (case global_fetch u i of Inl t \<Rightarrow> Inl t | Inr r \<Rightarrow> Inr (k r)))"


section \<open>The config loader (cli/config\_loader.ts)\<close>

subsection \<open>Data\<close>

text \<open>
  A value of type \<^verbatim>\<open>unknown\<close> in the options record of a command, as far as the
  loader tells values apart.
\<close>

datatype jsval = JUndefined | JNull | JBool bool | JNum int | JStr string

text \<open>\<^verbatim>\<open>Record<string, unknown>\<close>: a missing key reads as \<^verbatim>\<open>undefined\<close>.\<close>

type_synonym options = "string \<Rightarrow> jsval"

text \<open>
  \<^verbatim>\<open>Profile\<close>; its optional field \<^verbatim>\<open>default\<close> is \<open>default_flag\<close> here, \<open>None\<close>
  when the field is missing.
\<close>

record profile =
  accountId :: string
  apiToken :: string
  default_flag :: "bool option"

text \<open>\<^verbatim>\<open>Script\<close>: of its fields the loader reads the optional \<^verbatim>\<open>profile\<close> only.\<close>

record script =
  script_profile :: "string option"

text \<open>
  \<^verbatim>\<open>Config\<close>: both fields are optional. An object \<^verbatim>\<open>Record<string, T>\<close> is the
  list of its own properties in the order \<^verbatim>\<open>Object.values\<close> enumerates them; the keys
  of an object are distinct.
\<close>

record config =
  profiles :: "(string \<times> profile) list option"
  scripts :: "(string \<times> script) list option"

text \<open>
  The objects of a config are plain objects (object literals and what the parser builds),
  so a read \<^verbatim>\<open>obj[name]\<close> finds an own property first and then a property of
  \<^verbatim>\<open>Object.prototype\<close>, whose names are listed here; each of them holds a function or
  an object and is never falsy. \<open>Absent\<close> is the read that gives \<^verbatim>\<open>undefined\<close>.
\<close>

definition Object_prototype_names :: "string list" where
  "Object_prototype_names =
     [''constructor'', ''__defineGetter__'', ''__defineSetter__'', ''hasOwnProperty'',
      ''__lookupGetter__'', ''__lookupSetter__'', ''isPrototypeOf'', ''propertyIsEnumerable'',
      ''toString'', ''valueOf'', ''__proto__'', ''toLocaleString'']"

datatype 'a property = Own 'a | Inherited string | Absent

definition get_property :: "(string \<times> 'a) list \<Rightarrow> string \<Rightarrow> 'a property" where
  "get_property obj name =
     (case map_of obj name of
        Some v \<Rightarrow> Own v
      | None \<Rightarrow> if name \<in> set Object_prototype_names then Inherited name else Absent)"

text \<open>
  What \<^verbatim>\<open>findProfile\<close> returns under the type \<^verbatim>\<open>Profile\<close>: a profile, or the
  member of \<^verbatim>\<open>Object.prototype\<close> that a read by name has found.
\<close>

datatype profile_value = Profile_object profile | Object_prototype_member string

datatype binding = TextBinding string | SecretBinding string | OtherBinding string

record account =
  account_id :: string
  account_name :: string

record AwsCredentials =
  accessKeyId :: string
  secretAccessKey :: string

text \<open>
  What the loader throws. \<open>PermissionDenied\<close> is \<^verbatim>\<open>Deno.errors.PermissionDenied\<close>,
  \<open>Thrown\<close> any other value thrown by the platform or by an imported function,
  \<open>TypeError\<close> the error of a method call on \<^verbatim>\<open>undefined\<close>; each
  other constructor is one \<^verbatim>\<open>throw new Error(...)\<close> of the file, named by its message
  and carrying what the message interpolates.
\<close>

datatype error =
    PermissionDenied string
  | Thrown string
  | TypeError string
  | Cannot_resolve string
  | Unable_to_find_profile_no_profiles_in_config
  | Invalid_json nat
  | Error_loading_config string error
  | Unable_to_locate_account_id
  | Found_multiple_accounts "account list"
  | Failed_locating_account_id error
  | Bad_profile_name jsval
  | Unable_to_find_profile_in_config string
  | Unable_to_find_profile_marked_as_default nat nat
  | resolveString_Failed_to_resolve string
  | No_aws_credentials_found_for_profile string

text \<open>\<^verbatim>\<open>e instanceof Deno.errors.PermissionDenied\<close>.\<close>

definition is_PermissionDenied :: "error \<Rightarrow> bool" where
  "is_PermissionDenied e = (case e of PermissionDenied m \<Rightarrow> True | _ \<Rightarrow> False)"

text \<open>
  What the loader imports or calls on the platform; none of it is defined in the file.
  \<^item> \<open>parseOptionalStringOption\<close> (cli\_common.ts): a \<^verbatim>\<open>string | undefined\<close>, or it throws;
  \<^item> \<open>isValidProfileName\<close> (config\_validation.ts);
  \<^item> \<open>listAccounts\<close> (cloudflare\_api.ts), called with the API token;
  \<^item> \<open>env_get\<close>: \<^verbatim>\<open>Deno.env.get\<close>; \<open>cwd\<close>: \<^verbatim>\<open>Deno.cwd()\<close>, an absolute path,
    given as the list of its components (the root directory is the empty list);
  \<^item> \<open>fileExists\<close> (fs\_util.ts) and \<open>readTextFile\<close>: \<^verbatim>\<open>Deno.readTextFile\<close>;
  \<^item> \<open>parseJsonc\<close> (jsonc.ts): the parsed value and the number of parse errors it
    reports; \<open>checkConfig\<close> (config\_validation.ts);
  \<^item> \<open>regexp_group1 pattern dotAll text\<close>: \<^verbatim>\<open>text.match(new RegExp(pattern, flags))\<close>,
    \<open>None\<close> without a match and the first group of the match otherwise.
\<close>

record 'j deps =
  parseOptionalStringOption :: "string \<Rightarrow> options \<Rightarrow> error + string option"
  isValidProfileName :: "string \<Rightarrow> bool"
  listAccounts :: "string \<Rightarrow> error + account list"
  env_get :: "string \<Rightarrow> error + string option"
  cwd :: "error + string list"
  fileExists :: "string \<Rightarrow> error + bool"
  readTextFile :: "string \<Rightarrow> error + string"
  parseJsonc :: "string \<Rightarrow> 'j \<times> nat"
  checkConfig :: "'j \<Rightarrow> error + config"
  regexp_group1 :: "string \<Rightarrow> bool \<Rightarrow> string \<Rightarrow> error + string option"


subsection \<open>Locating and loading the config file\<close>

definition CONFIG_FILE_NAME :: string where
  "CONFIG_FILE_NAME = ''.denoflare''"

text \<open>
  The path functions of the standard library on an absolute directory, given by its
  components: \<^verbatim>\<open>join(dir, name)\<close> is the path of \<open>name\<close> inside \<open>dir\<close>, and
  \<^verbatim>\<open>resolve(dir, '..')\<close> is the parent directory, the root being its own parent.
\<close>

definition render_path :: "string list \<Rightarrow> string" where
  "render_path cs = (if cs = [] then ''/'' else concat (map (\<lambda>c. CHR ''/'' # c) cs))"

definition join :: "string list \<Rightarrow> string \<Rightarrow> string" where
  "join dir name = render_path (dir @ [name])"

definition resolve_parent :: "string list \<Rightarrow> string list" where
  "resolve_parent dir = butlast dir"

text \<open>The \<^verbatim>\<open>while (true)\<close> loop of \<^verbatim>\<open>findConfigFilePath\<close>, from a directory on.\<close>

function findConfigFilePath_loop :: "'j deps \<Rightarrow> string list \<Rightarrow> error + string option" where
  "findConfigFilePath_loop D dir =
     (let filePath = join dir CONFIG_FILE_NAME in
      case fileExists D filePath of
        Inl e \<Rightarrow> Inl e
      | Inr found \<Rightarrow>
          if found then Inr (Some filePath)
          else (let parentDir = resolve_parent dir in
                if parentDir = dir then Inr None
                else findConfigFilePath_loop D parentDir))"
  by pat_completeness auto
termination
proof (relation "measure (\<lambda>(D, dir). length dir)")
  show "wf (measure (\<lambda>(D :: 'j deps, dir :: string list). length dir))"
    by simp
next
  fix D :: "'j deps" and dir :: "string list" and filePath found parentDir
  assume "parentDir = resolve_parent dir" and "parentDir \<noteq> dir"
  then have "dir \<noteq> []"
    by (auto simp: resolve_parent_def)
  then show "((D, parentDir), (D, dir)) \<in> measure (\<lambda>(D, dir). length dir)"
    using \<open>parentDir = resolve_parent dir\<close> by (simp add: resolve_parent_def)
qed

declare findConfigFilePath_loop.simps [simp del]

text \<open>The body of the \<^verbatim>\<open>try\<close> block of \<^verbatim>\<open>findConfigFilePath\<close>.\<close>

definition findConfigFilePath_try :: "'j deps \<Rightarrow> error + string option" where
  "findConfigFilePath_try D =
     (case cwd D of Inl e \<Rightarrow> Inl e | Inr dir \<Rightarrow> findConfigFilePath_loop D dir)"

text \<open>
  \<^verbatim>\<open>findConfigFilePath(verbose)\<close>: \<open>Inr None\<close> is \<^verbatim>\<open>undefined\<close>. Console output is
  not part of the model, so \<open>verbose\<close> has no effect on the result.
\<close>

definition findConfigFilePath :: "'j deps \<Rightarrow> bool \<Rightarrow> error + string option" where
  "findConfigFilePath D verbose =
     (case findConfigFilePath_try D of
        Inl e \<Rightarrow> if is_PermissionDenied e then Inr None else Inl e
      | Inr r \<Rightarrow> Inr r)"

definition loadConfigFromFile :: "'j deps \<Rightarrow> string \<Rightarrow> error + config" where
  "loadConfigFromFile D path =
     (case (case readTextFile D path of
              Inl e \<Rightarrow> Inl e
            | Inr jsonc \<Rightarrow>
                (case parseJsonc D jsonc of
                   (config, errors) \<Rightarrow>
                     if errors > 0 then Inl (Invalid_json errors) else checkConfig D config))
      of Inl e \<Rightarrow> Inl (Error_loading_config path e)
       | Inr config \<Rightarrow> Inr config)"

text \<open>The empty object \<^verbatim>\<open>{}\<close> as a \<^verbatim>\<open>Config\<close>.\<close>

definition empty_config :: config where
  "empty_config = \<lparr>profiles = None, scripts = None\<rparr>"

text \<open>\<^verbatim>\<open>!!v\<close> of an option value.\<close>

definition truthy :: "jsval \<Rightarrow> bool" where
  "truthy v =
     (case v of JUndefined \<Rightarrow> False | JNull \<Rightarrow> False | JBool b \<Rightarrow> b
      | JNum n \<Rightarrow> n \<noteq> 0 | JStr s \<Rightarrow> s \<noteq> [])"

text \<open>Lines 21 to 25 of \<^verbatim>\<open>loadConfig\<close>: the config before the environment is looked at.\<close>

definition loadConfig_file :: "'j deps \<Rightarrow> options \<Rightarrow> error + config" where
  "loadConfig_file D options =
     (let verbose = truthy (options ''verbose'');
          optionConfigFilePath =
            (case options ''config'' of
               JStr s \<Rightarrow> if length (trim s) > 0 then Some (trim s) else None
             | _ \<Rightarrow> None)
      in case (case optionConfigFilePath of
                 Some p \<Rightarrow> Inr (Some p)
               | None \<Rightarrow> findConfigFilePath D verbose)
         of Inl e \<Rightarrow> Inl e
          | Inr configFilePath \<Rightarrow>
              (case configFilePath of
                 None \<Rightarrow> Inr empty_config
               | Some p \<Rightarrow> if p = [] then Inr empty_config else loadConfigFromFile D p))"

text \<open>\<^verbatim>\<open>v || ''\<close> for a \<^verbatim>\<open>string | undefined\<close>.\<close>

definition or_empty :: "string option \<Rightarrow> string" where
  "or_empty v = (case v of None \<Rightarrow> [] | Some s \<Rightarrow> s)"

text \<open>\<^verbatim>\<open>Object.keys(o || {})\<close> for an optional object.\<close>

definition Object_keys :: "(string \<times> 'a) list option \<Rightarrow> string list" where
  "Object_keys obj = (case obj of None \<Rightarrow> [] | Some ps \<Rightarrow> map fst ps)"

text \<open>The body of the \<^verbatim>\<open>try\<close> block of \<^verbatim>\<open>loadConfig\<close> (lines 30 to 39).\<close>

definition loadConfig_env_try :: "'j deps \<Rightarrow> config \<Rightarrow> error + config" where
  "loadConfig_env_try D config =
     (case env_get D ''CF_ACCOUNT_ID'' of
        Inl e \<Rightarrow> Inl e
      | Inr a \<Rightarrow>
          (let cfAccountId = trim (or_empty a) in
           case env_get D ''CF_API_TOKEN'' of
             Inl e \<Rightarrow> Inl e
           | Inr t \<Rightarrow>
               (let cfApiToken = trim (or_empty t) in
                if length cfAccountId > 0 \<and> length cfApiToken > 0 then
                  (let envProfile =
                         \<lparr>accountId = cfAccountId, apiToken = cfApiToken, default_flag = None\<rparr>
                   in Inr (config\<lparr>profiles := Some [(''env'', envProfile)]\<rparr>))
                else Inr config)))"

definition loadConfig :: "'j deps \<Rightarrow> options \<Rightarrow> error + config" where
  "loadConfig D options =
     (case loadConfig_file D options of
        Inl e \<Rightarrow> Inl e
      | Inr config \<Rightarrow>
          if length (Object_keys (profiles config)) = 0 then
            (case loadConfig_env_try D config of
               Inl e \<Rightarrow> if is_PermissionDenied e then Inr config else Inl e
             | Inr config' \<Rightarrow> Inr config')
          else Inr config)"


subsection \<open>Bindings\<close>

definition endsWith :: "string \<Rightarrow> string \<Rightarrow> bool" where
  "endsWith s p = suffix p s"

text \<open>\<^verbatim>\<open>s.split(c)\<close> for a separator of one character.\<close>

fun split_on :: "char \<Rightarrow> string \<Rightarrow> string list" where
  "split_on c [] = [[]]"
| "split_on c (x # xs) =
     (if x = c then [] # split_on c xs
      else (case split_on c xs of [] \<Rightarrow> [[x]] | l # ls \<Rightarrow> (x # l) # ls))"

text \<open>A \<^verbatim>\<open>string | undefined\<close> inside a template literal.\<close>

definition template_optional :: "string option \<Rightarrow> string" where
  "template_optional v = (case v of None \<Rightarrow> ''undefined'' | Some s \<Rightarrow> s)"

text \<open>
  One round of the loop over the lines of the credentials file: the state is the flag
  \<^verbatim>\<open>inProfile\<close> and the map \<^verbatim>\<open>atts\<close>.
\<close>

definition aws_line ::
  "string \<Rightarrow> string \<Rightarrow> bool \<times> (string \<rightharpoonup> string) \<Rightarrow> bool \<times> (string \<rightharpoonup> string)" where
  "aws_line profileLine line st =
     (case st of (inProfile, atts) \<Rightarrow>
        if startsWith line ''['' \<and> endsWith line '']'' then (line = profileLine, atts)
        else if inProfile then
          (case indexOf line ''='' of
             Some i \<Rightarrow>
               (let name = trim (take i line); v = trim (drop (i + 1) line)
                in (inProfile, atts(name \<mapsto> v)))
           | None \<Rightarrow> (inProfile, atts))
        else (inProfile, atts))"

definition loadAwsCredentialsForProfile :: "'j deps \<Rightarrow> string \<Rightarrow> error + AwsCredentials" where
  "loadAwsCredentialsForProfile D profile =
     (case env_get D ''HOME'' of
        Inl e \<Rightarrow> Inl e
      | Inr home \<Rightarrow>
          (case readTextFile D (template_optional home @ ''/.aws/credentials'') of
             Inl e \<Rightarrow> Inl e
           | Inr txt \<Rightarrow>
               (let profileLine = ''['' @ profile @ '']'';
                    atts = snd (fold (aws_line profileLine) (split_on (CHR 0x0A) txt)
                                  (False, Map.empty))
                in case (atts ''aws_access_key_id'', atts ''aws_secret_access_key'') of
                     (Some k, Some sk) \<Rightarrow> Inr \<lparr>accessKeyId = k, secretAccessKey = sk\<rparr>
                   | _ \<Rightarrow> Inl (No_aws_credentials_found_for_profile profile))))"

text \<open>
  \<^verbatim>\<open>/^aws:(.*?)$/.exec(secret)\<close>: the group of the match, \<open>None\<close> without a match.
  The dot matches no line terminator and the pattern is anchored at both ends, so the
  secret matches when it starts with \<^verbatim>\<open>aws:\<close> and has no line terminator after it.
\<close>

definition aws_secret_profile :: "string \<Rightarrow> string option" where
  "aws_secret_profile secret =
     (if startsWith secret ''aws:''
         \<and> list_all (\<lambda>c. c \<noteq> CHR 0x0A \<and> c \<noteq> CHR 0x0D) (drop 4 secret)
      then Some (drop 4 secret) else None)"

text \<open>
  Lines 69 to 73 of \<^verbatim>\<open>resolveBinding\<close>: the variable \<^verbatim>\<open>value\<close> after them. The
  local port is a natural number, \<open>None\<close> when it is \<^verbatim>\<open>undefined\<close>.
\<close>

definition resolveBinding_localPort :: "string \<Rightarrow> nat option \<Rightarrow> error + string" where
  "resolveBinding_localPort binding_value localPort =
     (case localPort of
        None \<Rightarrow>
          if includes_str binding_value ''${localPort}'' then Inl (Cannot_resolve ''localPort'')
          else Inr binding_value
      | Some port \<Rightarrow> Inr (replace binding_value ''${localPort}'' (toString port)))"

text \<open>Lines 74 to 78 of \<^verbatim>\<open>resolveBinding\<close>.\<close>

definition resolveBinding_pushId :: "string \<Rightarrow> string option \<Rightarrow> error + string" where
  "resolveBinding_pushId v pushId =
     (case pushId of
        None \<Rightarrow>
          if includes_str v ''${pushId}'' then Inl (Cannot_resolve ''pushId'') else Inr v
      | Some p \<Rightarrow> Inr (replace v ''${pushId}'' p))"

definition resolveBinding ::
  "'j deps \<Rightarrow> binding \<Rightarrow> nat option \<Rightarrow> string option \<Rightarrow> error + binding" where
  "resolveBinding D binding localPort pushId =
     (case binding of
        SecretBinding secret \<Rightarrow>
          (case aws_secret_profile secret of
             Some m1 \<Rightarrow>
               (case loadAwsCredentialsForProfile D m1 of
                  Inl e \<Rightarrow> Inl e
                | Inr creds \<Rightarrow>
                    Inr (SecretBinding (accessKeyId creds @ '':'' @ secretAccessKey creds)))
           | None \<Rightarrow> Inr binding)
      | TextBinding binding_value \<Rightarrow>
          (case resolveBinding_localPort binding_value localPort of
             Inl e \<Rightarrow> Inl e
           | Inr v \<Rightarrow>
               (case resolveBinding_pushId v pushId of
                  Inl e \<Rightarrow> Inl e
                | Inr v' \<Rightarrow> Inr (TextBinding v')))
      | OtherBinding b \<Rightarrow> Inr binding)"

fun resolveBindings_loop ::
  "'j deps \<Rightarrow> (string \<times> binding) list \<Rightarrow> nat option \<Rightarrow> string option
     \<Rightarrow> (string \<times> binding) list \<Rightarrow> error + (string \<times> binding) list" where
  "resolveBindings_loop D [] localPort pushId rt = Inr rt"
| "resolveBindings_loop D ((name, binding) # rest) localPort pushId rt =
     (case resolveBinding D binding localPort pushId of
        Inl e \<Rightarrow> Inl e
      | Inr b \<Rightarrow> resolveBindings_loop D rest localPort pushId (rt @ [(name, b)]))"

definition resolveBindings ::
  "'j deps \<Rightarrow> (string \<times> binding) list option \<Rightarrow> nat option \<Rightarrow> string option
     \<Rightarrow> error + (string \<times> binding) list" where
  "resolveBindings D bindings localPort pushId =
     resolveBindings_loop D (case bindings of None \<Rightarrow> [] | Some bs \<Rightarrow> bs) localPort pushId []"

subsection \<open>Profiles\<close>

text \<open>
  Lines 143 to 158 of \<^verbatim>\<open>findProfile\<close>: the branch taken when the option
  \<^verbatim>\<open>api-token\<close> is a string that is not empty. The variables \<^verbatim>\<open>accountId\<close> and
  \<^verbatim>\<open>apiToken\<close> are \<open>accountId_opt\<close> and \<open>token\<close>, and \<^verbatim>\<open>profiles\<close> below is
  \<open>profs\<close>, the field names being taken.
\<close>

definition findProfile_apiToken ::
  "'j deps \<Rightarrow> string option \<Rightarrow> string \<Rightarrow> error + profile_value option" where
  "findProfile_apiToken D accountId_opt token =
     (if (case accountId_opt of Some a \<Rightarrow> length a > 0 | None \<Rightarrow> False) then
        Inr (Some (Profile_object
               \<lparr>accountId = or_empty accountId_opt, apiToken = token, default_flag = None\<rparr>))
      else
        (case (case listAccounts D token of
                 Inl e \<Rightarrow> Inl e
               | Inr accounts \<Rightarrow>
                   if length accounts = 0 then Inl Unable_to_locate_account_id
                   else if length accounts > 1 then Inl (Found_multiple_accounts accounts)
                   else Inr (Some (Profile_object
                               \<lparr>accountId = account_id (accounts ! 0), apiToken = token,
                                default_flag = None\<rparr>)))
         of Inl e \<Rightarrow> Inl (Failed_locating_account_id e)
          | Inr r \<Rightarrow> Inr r))"

text \<open>Lines 174 to 179 of \<^verbatim>\<open>findProfile\<close>: no profile is named.\<close>

definition findProfile_default ::
  "(string \<times> profile) list \<Rightarrow> error + profile_value option" where
  "findProfile_default profs =
     (let profilesArr = map snd profs in
      if length profilesArr = 0 then Inr None
      else (let defaultProfiles = filter (\<lambda>v. default_flag v = Some True) profilesArr in
            if length defaultProfiles = 1 then Inr (Some (Profile_object (defaultProfiles ! 0)))
            else if length profilesArr = 1 then Inr (Some (Profile_object (profilesArr ! 0)))
            else Inl (Unable_to_find_profile_marked_as_default
                        (length profilesArr) (length defaultProfiles))))"

text \<open>
  Lines 160 to 173 of \<^verbatim>\<open>findProfile\<close>. What \<^verbatim>\<open>profiles[name]\<close> finds is an
  object or a function and so never falsy: \<^verbatim>\<open>!optionProfile\<close> holds when the read
  gives \<^verbatim>\<open>undefined\<close>. The message of line 171 interpolates the missing profile,
  which reads \<^verbatim>\<open>undefined\<close>.
\<close>

definition findProfile_config ::
  "'j deps \<Rightarrow> config \<Rightarrow> options \<Rightarrow> script option \<Rightarrow> error + profile_value option" where
  "findProfile_config D config options script =
     (let profs = (case profiles config of None \<Rightarrow> [] | Some ps \<Rightarrow> ps);
          optionProfileName = options ''profile''
      in
      if optionProfileName \<noteq> JUndefined then
        (case optionProfileName of
           JStr name \<Rightarrow>
             if \<not> isValidProfileName D name then Inl (Bad_profile_name optionProfileName)
             else (case get_property profs name of
                     Absent \<Rightarrow> Inl (Unable_to_find_profile_in_config name)
                   | Own optionProfile \<Rightarrow> Inr (Some (Profile_object optionProfile))
                   | Inherited member \<Rightarrow> Inr (Some (Object_prototype_member member)))
         | _ \<Rightarrow> Inl (Bad_profile_name optionProfileName))
      else
        (case (case script of None \<Rightarrow> None | Some sc \<Rightarrow> script_profile sc) of
           Some name \<Rightarrow>
             if name \<noteq> [] then
               (if \<not> isValidProfileName D name then Inl (Bad_profile_name (JStr name))
                else (case get_property profs name of
                        Absent \<Rightarrow> Inl (Unable_to_find_profile_in_config ''undefined'')
                      | Own scriptProfile \<Rightarrow> Inr (Some (Profile_object scriptProfile))
                      | Inherited member \<Rightarrow> Inr (Some (Object_prototype_member member))))
             else findProfile_default profs
         | None \<Rightarrow> findProfile_default profs))"


definition findProfile ::
  "'j deps \<Rightarrow> config \<Rightarrow> options \<Rightarrow> script option \<Rightarrow> error + profile_value option" where
  "findProfile D config options script =
     (case parseOptionalStringOption D ''account-id'' options of
        Inl e \<Rightarrow> Inl e
      | Inr accountId_opt \<Rightarrow>
          (case parseOptionalStringOption D ''api-token'' options of
             Inl e \<Rightarrow> Inl e
           | Inr apiToken_opt \<Rightarrow>
               (case apiToken_opt of
                  Some token \<Rightarrow>
                    if length token > 0 then findProfile_apiToken D accountId_opt token
                    else findProfile_config D config options script
                | None \<Rightarrow> findProfile_config D config options script)))"

definition resolveString :: "'j deps \<Rightarrow> string \<Rightarrow> error + string" where
  "resolveString D string =
     (if startsWith string ''regex:'' then
        (let str = substring_from string (length ''regex:'') in
         case indexOf str '':'' of
           Some i \<Rightarrow>
             (let path = take i str in
              case readTextFile D path of
                Inl e \<Rightarrow> Inl e
              | Inr txt \<Rightarrow>
                  (let pattern = substring_from str (i + 1);
                       dotAll = startsWith pattern ''(?s)'';
                       pattern' = (if dotAll then substring_from pattern 4 else pattern)
                   in case regexp_group1 D pattern' dotAll txt of
                        Inl e \<Rightarrow> Inl e
                      | Inr (Some g) \<Rightarrow> Inr g
                      | Inr None \<Rightarrow> Inl (resolveString_Failed_to_resolve string)))
         | None \<Rightarrow> Inr string)
      else Inr string)"

text \<open>
  A member of \<^verbatim>\<open>Object.prototype\<close> has no field \<^verbatim>\<open>accountId\<close>, so
  \<^verbatim>\<open>resolveString\<close> is called with \<^verbatim>\<open>undefined\<close> and its first line,
  \<^verbatim>\<open>string.startsWith('regex:')\<close>, throws a \<^verbatim>\<open>TypeError\<close>.
\<close>

definition resolveProfileComponents :: "'j deps \<Rightarrow> profile_value \<Rightarrow> error + profile" where
  "resolveProfileComponents D pv =
     (case pv of
        Object_prototype_member member \<Rightarrow> Inl (TypeError ''startsWith'')
      | Profile_object p \<Rightarrow>
          (case resolveString D (accountId p) of
             Inl e \<Rightarrow> Inl e
           | Inr a \<Rightarrow>
               (case resolveString D (apiToken p) of
                  Inl e \<Rightarrow> Inl e
                | Inr t \<Rightarrow> Inr \<lparr>accountId = a, apiToken = t, default_flag = None\<rparr>)))"

definition resolveProfile ::
  "'j deps \<Rightarrow> config \<Rightarrow> options \<Rightarrow> script option \<Rightarrow> error + profile" where
  "resolveProfile D config options script =
     (case findProfile D config options script of
        Inl e \<Rightarrow> Inl e
      | Inr None \<Rightarrow> Inl Unable_to_find_profile_no_profiles_in_config
      | Inr (Some p) \<Rightarrow> resolveProfileComponents D p)"

definition resolveProfileOpt ::
  "'j deps \<Rightarrow> config \<Rightarrow> options \<Rightarrow> script option \<Rightarrow> error + profile option" where
  "resolveProfileOpt D config options script =
     (case findProfile D config options script of
        Inl e \<Rightarrow> Inl e
      | Inr None \<Rightarrow> Inr None
      | Inr (Some p) \<Rightarrow>
          (case resolveProfileComponents D p of Inl e \<Rightarrow> Inl e | Inr r \<Rightarrow> Inr (Some r)))"


section \<open>The key-value namespace over the API (class ApiKVNamespace)\<close>

text \<open>
  The class implements the interface \<^verbatim>\<open>KVNamespace\<close> with the methods \<^verbatim>\<open>get\<close>,
  \<^verbatim>\<open>getWithMetadata\<close>, \<^verbatim>\<open>put\<close>, \<^verbatim>\<open>delete\<close> and \<^verbatim>\<open>list\<close>. The reads go to
  \<^verbatim>\<open>getKeyValue\<close> and \<^verbatim>\<open>getKeyMetadata\<close> of cloudflare\_api.ts, which are inputs
  of the model, as are \<^verbatim>\<open>JSON.parse\<close> and the UTF-8 decoder of \<^verbatim>\<open>Bytes\<close>.
\<close>

text \<open>
  A parsed JSON value; \<open>Json_number m e\<close> is the number \<open>m \<times> 10\<^sup>e\<close>, which
  every finite number is for some \<open>m\<close> and \<open>e\<close>.
\<close>

datatype json =
    Json_null
  | Json_bool bool
  | Json_number int int
  | Json_string string
  | Json_array "json list"
  | Json_object "(string \<times> json) list"

text \<open>
  \<^verbatim>\<open>metadata || null\<close>: \<open>None\<close> is \<^verbatim>\<open>undefined\<close> on the left and \<^verbatim>\<open>null\<close>
  on the right; a falsy value (\<^verbatim>\<open>null\<close>, \<^verbatim>\<open>false\<close>, zero, the empty string)
  becomes \<^verbatim>\<open>null\<close>, every other value stays.
\<close>

definition json_truthy :: "json \<Rightarrow> bool" where
  "json_truthy v =
     (case v of
        Json_null \<Rightarrow> False
      | Json_bool b \<Rightarrow> b
      | Json_number m e \<Rightarrow> m \<noteq> 0
      | Json_string s \<Rightarrow> s \<noteq> []
      | Json_array vs \<Rightarrow> True
      | Json_object ps \<Rightarrow> True)"

definition or_null :: "json option \<Rightarrow> json option" where
  "or_null md = (case md of None \<Rightarrow> None | Some v \<Rightarrow> if json_truthy v then Some v else None)"

text \<open>
  The option and result types of \<^verbatim>\<open>put\<close> and \<^verbatim>\<open>list\<close> are declared in
  cloudflare\_workers\_types.d.ts, which is not among the sources at hand; the class reads
  none of their fields. They are given here with the fields of the Workers KV interface,
  every field optional.
\<close>

record KVPutOptions =
  expiration :: "nat option"
  expirationTtl :: "nat option"
  put_metadata :: "json option"

record KVListOptions =
  list_prefix :: "string option"
  list_limit :: "nat option"
  list_cursor :: "string option"

record KVListResult =
  list_keys :: "string list"
  list_complete :: bool
  result_cursor :: "string option"

type_synonym bytes = "nat list"

record ApiKVNamespace =
  ns_accountId :: string
  ns_apiToken :: string
  namespaceId :: string

text \<open>The argument object of \<^verbatim>\<open>getKeyValue\<close>.\<close>

record getKeyValue_args =
  arg_accountId :: string
  arg_namespaceId :: string
  arg_key :: string
  arg_apiToken :: string

text \<open>
  What a method throws: \<open>Not_implemented m\<close> is the error
  \<^verbatim>\<open>ApiKVNamespace.m not implemented.\<close> of method \<open>m\<close>; \<open>Api_error\<close> is whatever an
  imported function or \<^verbatim>\<open>JSON.parse\<close> throws.
\<close>

datatype kv_error =
    Not_implemented string
  | Api_error string
  | Cannot_use_a_kvNamespace_binding_without_a_profile

record cloudflare_api =
  getKeyValue :: "getKeyValue_args \<Rightarrow> kv_error + bytes option"
  getKeyMetadata :: "string \<Rightarrow> string \<Rightarrow> string \<Rightarrow> string \<Rightarrow> kv_error + json option"
  JSON_parse :: "string \<Rightarrow> kv_error + json"
  utf8 :: "bytes \<Rightarrow> string"

text \<open>The options of a read: \<^verbatim>\<open>opts.type\<close>, when \<^verbatim>\<open>opts\<close> is given and has the field.\<close>

record KVGetOptions =
  opts_type :: "string option"

text \<open>What \<^verbatim>\<open>get\<close> resolves to, apart from \<^verbatim>\<open>null\<close>.\<close>

datatype kv_value = ArrayBuffer bytes | Json json

text \<open>\<^verbatim>\<open>KVValueAndMetadata\<close>; \<open>metadata = None\<close> is \<^verbatim>\<open>null\<close>.\<close>

record KVValueAndMetadata =
  kv_value :: kv_value
  metadata :: "json option"

text \<open>The value of a \<^verbatim>\<open>put\<close>: a string, a stream (opaque) or an array buffer.\<close>

datatype put_value = PutString string | PutStream | PutArrayBuffer bytes

definition ofProfile :: "profile option \<Rightarrow> string \<Rightarrow> kv_error + ApiKVNamespace" where
  "ofProfile p kvNamespace =
     (case p of
        None \<Rightarrow> Inl Cannot_use_a_kvNamespace_binding_without_a_profile
      | Some pr \<Rightarrow>
          Inr \<lparr>ns_accountId = accountId pr, ns_apiToken = apiToken pr, namespaceId = kvNamespace\<rparr>)"

text \<open>\<^verbatim>\<open>opts && opts.type === t\<close>.\<close>

definition opts_type_is :: "KVGetOptions option \<Rightarrow> string \<Rightarrow> bool" where
  "opts_type_is opts t = (case opts of None \<Rightarrow> False | Some o' \<Rightarrow> opts_type o' = Some t)"

text \<open>\<^verbatim>\<open>get(key, opts)\<close>: \<open>Inr None\<close> is \<^verbatim>\<open>null\<close>.\<close>

definition ApiKVNamespace_get ::
  "cloudflare_api \<Rightarrow> ApiKVNamespace \<Rightarrow> string \<Rightarrow> KVGetOptions option \<Rightarrow> kv_error + kv_value option" where
  "ApiKVNamespace_get A this key opts =
     (case getKeyValue A \<lparr>arg_accountId = ns_accountId this, arg_namespaceId = namespaceId this,
                           arg_key = key, arg_apiToken = ns_apiToken this\<rparr> of
        Inl e \<Rightarrow> Inl e
      | Inr None \<Rightarrow> Inr None
      | Inr (Some bs) \<Rightarrow>
          if opts_type_is opts ''arrayBuffer'' then Inr (Some (ArrayBuffer bs))
          else if opts_type_is opts ''json'' then
            (case JSON_parse A (utf8 A bs) of Inl e \<Rightarrow> Inl e | Inr v \<Rightarrow> Inr (Some (Json v)))
          else Inl (Not_implemented ''get''))"

definition ApiKVNamespace_getWithMetadata ::
  "cloudflare_api \<Rightarrow> ApiKVNamespace \<Rightarrow> string \<Rightarrow> KVGetOptions option
     \<Rightarrow> kv_error + KVValueAndMetadata option" where
  "ApiKVNamespace_getWithMetadata A this key opts =
     (case getKeyValue A \<lparr>arg_accountId = ns_accountId this, arg_namespaceId = namespaceId this,
                           arg_key = key, arg_apiToken = ns_apiToken this\<rparr> of
        Inl e \<Rightarrow> Inl e
      | Inr None \<Rightarrow> Inr None
      | Inr (Some bs) \<Rightarrow>
          (case getKeyMetadata A (ns_accountId this) (namespaceId this) key (ns_apiToken this) of
             Inl e \<Rightarrow> Inl e
           | Inr md \<Rightarrow>
               if opts_type_is opts ''arrayBuffer'' then
                 Inr (Some \<lparr>kv_value = ArrayBuffer bs, metadata = or_null md\<rparr>)
               else if opts_type_is opts ''json'' then
                 (case JSON_parse A (utf8 A bs) of
                    Inl e \<Rightarrow> Inl e
                  | Inr v \<Rightarrow> Inr (Some \<lparr>kv_value = Json v, metadata = or_null md\<rparr>))
               else Inl (Not_implemented ''getWithMetadata'')))"

definition ApiKVNamespace_put ::
  "ApiKVNamespace \<Rightarrow> string \<Rightarrow> put_value \<Rightarrow> KVPutOptions option \<Rightarrow> kv_error + unit" where
  "ApiKVNamespace_put this key v opts = Inl (Not_implemented ''put'')"

definition ApiKVNamespace_delete :: "ApiKVNamespace \<Rightarrow> string \<Rightarrow> kv_error + unit" where
  "ApiKVNamespace_delete this key = Inl (Not_implemented ''delete'')"

definition ApiKVNamespace_list ::
  "ApiKVNamespace \<Rightarrow> KVListOptions option \<Rightarrow> kv_error + KVListResult" where
  "ApiKVNamespace_list this opts = Inl (Not_implemented ''list'')"

text \<open>
  The five methods of the interface as one table: a call names the method and carries
  its arguments; \<open>raised\<close> is what the call throws, if it throws.
\<close>

datatype kv_method = Method_get | Method_getWithMetadata | Method_put | Method_delete | Method_list

datatype kv_call =
    Call_get string "KVGetOptions option"
  | Call_getWithMetadata string "KVGetOptions option"
  | Call_put string put_value "KVPutOptions option"
  | Call_delete string
  | Call_list "KVListOptions option"

fun method_of :: "kv_call \<Rightarrow> kv_method" where
  "method_of (Call_get key opts) = Method_get"
| "method_of (Call_getWithMetadata key opts) = Method_getWithMetadata"
| "method_of (Call_put key v opts) = Method_put"
| "method_of (Call_delete key) = Method_delete"
| "method_of (Call_list opts) = Method_list"

definition raised_of :: "kv_error + 'a \<Rightarrow> kv_error option" where
  "raised_of r = (case r of Inl e \<Rightarrow> Some e | Inr v \<Rightarrow> None)"

fun raised :: "cloudflare_api \<Rightarrow> ApiKVNamespace \<Rightarrow> kv_call \<Rightarrow> kv_error option" where
  "raised A this (Call_get key opts) = raised_of (ApiKVNamespace_get A this key opts)"
| "raised A this (Call_getWithMetadata key opts) =
     raised_of (ApiKVNamespace_getWithMetadata A this key opts)"
| "raised A this (Call_put key v opts) = raised_of (ApiKVNamespace_put this key v opts)"
| "raised A this (Call_delete key) = raised_of (ApiKVNamespace_delete this key)"
| "raised A this (Call_list opts) = raised_of (ApiKVNamespace_list this opts)"

text \<open>A method is unimplemented when every call of it throws the error saying so.\<close>

definition unimplemented :: "kv_method \<Rightarrow> bool" where
  "unimplemented m =
     (\<forall>A this c. method_of c = m \<longrightarrow> (\<exists>name. raised A this c = Some (Not_implemented name)))"


section \<open>Sample inputs\<close>

text \<open>
  Concrete inputs at which the properties below are instantiated. \<open>sample_URL\<close> lists
  what the platform's parser yields for four URLs and rejects every other string.
\<close>

definition sample_URL :: "string \<Rightarrow> url option" where
  "sample_URL s =
     (if s = ''https://tail.example/fetch/api.cloudflare.com/client/v4/accounts'' then
        Some \<lparr>href = s, origin = ''https://tail.example'',
              pathname = ''/fetch/api.cloudflare.com/client/v4/accounts''\<rparr>
      else if s = ''https://api.cloudflare.com/client/v4/accounts'' then
        Some \<lparr>href = s, origin = ''https://api.cloudflare.com'', pathname = ''/client/v4/accounts''\<rparr>
      else if s = ''https://tail.example/fetch/evil.com/x'' then
        Some \<lparr>href = s, origin = ''https://tail.example'', pathname = ''/fetch/evil.com/x''\<rparr>
      else if s = ''https://evil.com/x'' then
        Some \<lparr>href = s, origin = ''https://evil.com'', pathname = ''/x''\<rparr>
      else None)"

definition sample_platform :: platform where
  "sample_platform =
     \<lparr>new_URL = sample_URL, TAILWEB_APP_DATA = ''https://tail.example/app.js'',
      html_pieces = ([], [], [], [])\<rparr>"

definition sample_request :: "string \<Rightarrow> request" where
  "sample_request u =
     \<lparr>request_url = u, request_method = ''GET'',
      request_headers =
        [(''authorization'', ''Bearer t''), (''cf-connecting-ip'', ''203.0.113.9''),
         (''cf-ray'', ''abc''), (''content-type'', ''application/json'')]\<rparr>"

text \<open>
  A sample of what the loader imports: options are read as they are when they are strings,
  profile names are lower-case words, the token \<^verbatim>\<open>tok1\<close> belongs to one account, no
  environment variable is set, and the config file lies two directories above the
  working directory.
\<close>

definition sample_profiles :: "(string \<times> profile) list" where
  "sample_profiles =
     [(''first'', \<lparr>accountId = ''a1'', apiToken = ''t1'', default_flag = None\<rparr>),
      (''second'', \<lparr>accountId = ''a2'', apiToken = ''t2'', default_flag = Some True\<rparr>),
      (''third'', \<lparr>accountId = ''a3'', apiToken = ''t3'', default_flag = None\<rparr>)]"

definition sample_config :: config where
  "sample_config = \<lparr>profiles = Some sample_profiles, scripts = None\<rparr>"

definition sample_deps :: "unit deps" where
  "sample_deps =
     \<lparr>parseOptionalStringOption =
        (\<lambda>name options.
           case options name of
             JUndefined \<Rightarrow> Inr None
           | JStr s \<Rightarrow> Inr (Some s)
           | _ \<Rightarrow> Inl (Thrown name)),
      isValidProfileName =
        (\<lambda>name. name \<noteq> [] \<and> list_all (\<lambda>c. c \<in> set ''abcdefghijklmnopqrstuvwxyz'') name),
      listAccounts =
        (\<lambda>token. if token = ''tok1''
                  then Inr [\<lparr>account_id = ''acct1'', account_name = ''one''\<rparr>]
                  else Inl (Thrown ''listAccounts'')),
      env_get = (\<lambda>name. Inr None),
      cwd = Inr [''home'', ''user'', ''project''],
      fileExists = (\<lambda>path. Inr (path = ''/home/.denoflare'')),
      readTextFile =
        (\<lambda>path. if path = ''/home/.denoflare'' then Inr ''{}'' else Inl (Thrown ''NotFound'')),
      parseJsonc = (\<lambda>text. ((), 0)),
      checkConfig = (\<lambda>j. Inr sample_config),
      regexp_group1 = (\<lambda>pattern dotAll text. Inr None)\<rparr>"

definition no_options :: options where
  "no_options = (\<lambda>name. JUndefined)"

text \<open>
  A sample upstream store: the key \<^verbatim>\<open>k\<close> holds three bytes, every other key is
  absent, and reading metadata fails.
\<close>

definition sample_api :: cloudflare_api where
  "sample_api =
     \<lparr>getKeyValue = (\<lambda>args. if arg_key args = ''k'' then Inr (Some [1, 2, 3]) else Inr None),
      getKeyMetadata = (\<lambda>account ns key token. Inl (Api_error ''metadata'')),
      JSON_parse = (\<lambda>text. Inl (Api_error ''SyntaxError'')),
      utf8 = (\<lambda>bs. [])\<rparr>"

definition sample_namespace :: ApiKVNamespace where
  "sample_namespace = \<lparr>ns_accountId = ''a1'', ns_apiToken = ''t1'', namespaceId = ''n1''\<rparr>"


section \<open>Properties of the string helpers\<close>

lemma indexOf_self_append: "indexOf (p @ post) p = Some 0"
proof (cases "p @ post")
  case Nil
  then show ?thesis by simp
next
  case (Cons a l)
  then have "prefix p (a # l)" by (metis prefixI)
  then show ?thesis by (simp add: Cons)
qed

lemma prefix_append_short:
  "prefix p (xs @ ys) \<Longrightarrow> length p \<le> length xs \<Longrightarrow> prefix p xs"
  using prefix_length_prefix [of p "xs @ ys" xs] by simp

lemma indexOf_Some_bound: "indexOf s p = Some i \<Longrightarrow> prefix p (drop i s) \<and> i \<le> length s"
  by (induction s arbitrary: i) (auto split: if_splits)

lemma indexOf_Some_decomp:
  "indexOf s p = Some i \<Longrightarrow> s = take i s @ p @ drop (i + length p) s"
proof -
  assume "indexOf s p = Some i"
  then have "prefix p (drop i s)" by (simp add: indexOf_Some_bound)
  then obtain r where "drop i s = p @ r" by (auto simp: prefix_def)
  then have "drop (i + length p) s = r"
    by (metis add.commute append_eq_conv_conj drop_drop)
  with \<open>drop i s = p @ r\<close> show ?thesis
    by (metis append_take_drop_id)
qed

lemma indexOf_None: "indexOf s p = None \<Longrightarrow> \<not> prefix p (drop i s)"
proof (induction s arbitrary: i)
  case Nil then show ?case by (auto split: if_splits)
next
  case (Cons c s)
  then show ?case by (cases i) (auto split: if_splits)
qed

lemma includes_str_iff: "includes_str s p \<longleftrightarrow> (\<exists>pre post. s = pre @ p @ post)"
proof
  assume "includes_str s p"
  then obtain i where "indexOf s p = Some i" by (auto simp: includes_str_def)
  then show "\<exists>pre post. s = pre @ p @ post" using indexOf_Some_decomp by blast
next
  assume "\<exists>pre post. s = pre @ p @ post"
  then obtain pre post where s: "s = pre @ p @ post" by blast
  have "prefix p (drop (length pre) s)" by (simp add: s)
  then show "includes_str s p" using indexOf_None[of s p "length pre"]
    by (auto simp: includes_str_def)
qed

lemma indexOf_first:
  assumes "p \<noteq> []" and "\<not> includes_str (pre @ butlast p) p"
  shows "indexOf (pre @ p @ post) p = Some (length pre)"
  using assms(2)
proof (induction pre)
  case Nil
  show ?case by (simp add: indexOf_self_append)
next
  case (Cons c pre)
  have len: "length p \<le> length (c # pre @ butlast p)" using assms(1) by (cases p rule: rev_cases) auto
  have np: "\<not> prefix p (c # pre @ butlast p)"
    using Cons.prems indexOf_None[of "(c # pre) @ butlast p" p 0] by (auto simp: includes_str_def)
  have "\<not> prefix p (c # pre @ p @ post)"
  proof
    assume "prefix p (c # pre @ p @ post)"
    moreover have "c # pre @ p @ post = (c # pre @ butlast p) @ ([last p] @ post)"
      using assms(1) by simp
    ultimately show False using np len prefix_append_short by metis
  qed
  moreover have "\<not> includes_str (pre @ butlast p) p"
    using Cons.prems by (auto simp: includes_str_def split: if_splits)
  ultimately show ?case using Cons.IH by simp
qed

lemma getSubstitution_plain:
  "CHR ''$'' \<notin> set r \<Longrightarrow> getSubstitution m b a r = r"
  by (induction m b a r rule: getSubstitution.induct) auto

lemma replace_first:
  assumes "p \<noteq> []" and "\<not> includes_str (pre @ butlast p) p"
  shows "replace (pre @ p @ post) p r = pre @ getSubstitution p pre post r @ post"
  using indexOf_first[OF assms, of post] by (simp add: replace_def)

lemma replace_absent: "\<not> includes_str s p \<Longrightarrow> replace s p r = s"
  by (simp add: replace_def includes_str_def)

lemma of_char_digit: "d < 10 \<Longrightarrow> of_char (digit d) = 48 + d"
proof -
  assume "d < 10"
  then have "d \<in> {0, 1, 2, 3, 4, 5, 6, 7, 8, 9}"
    by auto
  then show ?thesis
    by (auto simp: digit_def)
qed

lemma digit_not_dollar: "d < 10 \<Longrightarrow> digit d \<noteq> CHR ''$''"
proof
  assume "d < 10" and "digit d = CHR ''$''"
  then have "(of_char (digit d) :: nat) = of_char CHR ''$''" by simp
  with \<open>d < 10\<close> show False by (simp add: of_char_digit)
qed

lemma toString_plain: "CHR ''$'' \<notin> set (toString n)"
proof (induction n rule: toString.induct)
  case (1 n)
  then show ?case
    using digit_not_dollar [of n] digit_not_dollar [of "n mod 10"]
    by (subst toString.simps) auto
qed

lemma toString_value: "foldl (\<lambda>a c. 10 * a + (of_char c - 48)) 0 (toString n) = n"
proof (induction n rule: toString.induct)
  case (1 n)
  show ?case
  proof (cases "n < 10")
    case True
    then show ?thesis by (subst toString.simps) (simp add: of_char_digit)
  next
    case False
    then show ?thesis using 1 by (subst toString.simps) (simp add: of_char_digit)
  qed
qed

lemma digit_in_digits: "d < 10 \<Longrightarrow> digit d \<in> set ''0123456789''"
  unfolding digit_def by (rule nth_mem) simp

lemma digit_zero_iff: "d < 10 \<Longrightarrow> digit d = CHR ''0'' \<longleftrightarrow> d = 0"
proof
  assume "d < 10" and "digit d = CHR ''0''"
  then have "(of_char (digit d) :: nat) = of_char CHR ''0''" by simp
  with \<open>d < 10\<close> show "d = 0" by (simp add: of_char_digit)
next
  assume "d = 0" then show "digit d = CHR ''0''" by (simp add: digit_def)
qed

lemma toString_nonempty: "toString n \<noteq> []"
  by (subst toString.simps) simp

lemma toString_digits: "set (toString n) \<subseteq> set ''0123456789''"
proof (induction n rule: toString.induct)
  case (1 n)
  show ?case
  proof (cases "n < 10")
    case True
    then show ?thesis
      using digit_in_digits [of n] by (subst toString.simps) simp
  next
    case False
    then show ?thesis
      using 1 digit_in_digits [of "n mod 10"] by (subst toString.simps) simp
  qed
qed

lemma toString_leading_zero: "hd (toString n) = CHR ''0'' \<Longrightarrow> toString n = ''0''"
proof (induction n rule: toString.induct)
  case (1 n)
  show ?case
  proof (cases "n < 10")
    case True
    with 1(2) have "digit n = CHR ''0''"
      by (subst (asm) toString.simps) simp
    with True have "n = 0" by (simp add: digit_zero_iff)
    then show ?thesis by (subst toString.simps) (simp add: digit_def)
  next
    case False
    then have t: "toString n = toString (n div 10) @ [digit (n mod 10)]"
      by (subst toString.simps) simp
    with 1(2) have "hd (toString (n div 10)) = CHR ''0''"
      by (simp add: toString_nonempty)
    with 1(1) False have z: "toString (n div 10) = ''0''" by simp
    have "foldl (\<lambda>a c. 10 * a + (of_char c - 48)) 0 (toString (n div 10)) = n div 10"
      by (rule toString_value)
    with z have "n div 10 = 0" by simp
    with False show ?thesis by simp
  qed
qed

lemma replace_toString:
  "replace v p (toString port) =
     (case indexOf v p of None \<Rightarrow> v
      | Some i \<Rightarrow> take i v @ toString port @ drop (i + length p) v)"
  by (simp add: replace_def getSubstitution_plain toString_plain split: option.splits)

section \<open>Properties of the tail page worker\<close>

text \<open>
  For a request whose path starts with \<^verbatim>\<open>/fetch/\<close>, let the rest of the path,
  prefixed with \<^verbatim>\<open>https://\<close>, parse as a URL. If its origin is
  \<^verbatim>\<open>https://api.cloudflare.com\<close>, the handler ends in the global fetch of that URL
  and hands its response through. For every other origin the handler throws a
  \<^verbatim>\<open>Response\<close> of status 400, so its promise rejects and returns no response.
\<close>

lemma fetch_path_fetch:
  assumes "new_URL W (request_url request) = Some u"
    and "startsWith (pathname u) ''/fetch/''"
    and "new_URL W (''https://'' @ substring_from (pathname u) 7) = Some fetchUrl"
  shows "(origin fetchUrl = ''https://api.cloudflare.com'' \<longrightarrow>
            (\<exists>init. fetch W request =
               ReturnFetch (''https://'' @ substring_from (pathname u) 7) (Some init)
                 (\<lambda>response. response)
             \<and> (\<forall>global_fetch. settle global_fetch (fetch W request) =
                    global_fetch (''https://'' @ substring_from (pathname u) 7) (Some init))))
       \<and> (origin fetchUrl \<noteq> ''https://api.cloudflare.com'' \<longrightarrow>
            (\<exists>r. fetch W request = Throw (ThrownResponse r) \<and> status r = 400
             \<and> (\<forall>global_fetch. settle global_fetch (fetch W request) = Inl (ThrownResponse r))))"
proof -
  have "pathname u \<noteq> ''/''" and "pathname u \<noteq> ''/app.js''"
    using assms(2) by (auto simp: startsWith_def)
  moreover have "length ''/fetch/'' = 7"
    by simp
  ultimately have
    "fetch W request =
       (if origin fetchUrl = ''https://api.cloudflare.com'' then
          ReturnFetch (''https://'' @ substring_from (pathname u) 7)
            (Some \<lparr>init_method = request_method request,
                   init_headers =
                     filter (\<lambda>v. \<not> startsWith (fst v) ''cf-'') (request_headers request),
                   init_body = None\<rparr>)
            (\<lambda>response. response)
        else Throw (ThrownResponse
               \<lparr>status = 400, response_headers = [],
                response_body = ''Unable to fetch '' @ href fetchUrl\<rparr>))"
    unfolding fetch_def using assms by (simp only: Let_def) simp
  then show ?thesis
    by (simp add: settle_def split: sum.split)
qed

text \<open>
  Claim C2. The handler is to reject a request for another origin with an HTTP response
  of status 400. For the path \<^verbatim>\<open>/fetch/evil.com/x\<close> it builds that response and
  throws it (line 25): whatever the global fetch does, the handler's promise rejects and
  no response is returned. The other branches return their response, as the last one
  does for the path \<^verbatim>\<open>/x\<close>.
\<close>

theorem fetch_other_origin_throws_response:
  "fetch sample_platform (sample_request ''https://tail.example/fetch/evil.com/x'')
     = Throw (ThrownResponse
         \<lparr>status = 400, response_headers = [],
          response_body = ''Unable to fetch https://evil.com/x''\<rparr>)
   \<and> (\<forall>global_fetch.
         settle global_fetch
           (fetch sample_platform (sample_request ''https://tail.example/fetch/evil.com/x''))
         = Inl (ThrownResponse
             \<lparr>status = 400, response_headers = [],
              response_body = ''Unable to fetch https://evil.com/x''\<rparr>))
   \<and> (\<forall>global_fetch.
         settle global_fetch (fetch sample_platform (sample_request ''https://evil.com/x''))
         = Inr \<lparr>status = 200, response_headers = [],
                response_body = ''hello 203.0.113.9''\<rparr>)"
proof -
  have len: "length ''/fetch/'' = 7"
    by simp
  have u: "new_URL sample_platform ''https://tail.example/fetch/evil.com/x''
      = Some \<lparr>href = ''https://tail.example/fetch/evil.com/x'', origin = ''https://tail.example'',
              pathname = ''/fetch/evil.com/x''\<rparr>"
    and f: "new_URL sample_platform ''https://evil.com/x''
      = Some \<lparr>href = ''https://evil.com/x'', origin = ''https://evil.com'', pathname = ''/x''\<rparr>"
    by (simp_all add: sample_platform_def sample_URL_def)
  have thrown: "fetch sample_platform (sample_request ''https://tail.example/fetch/evil.com/x'')
     = Throw (ThrownResponse
         \<lparr>status = 400, response_headers = [],
          response_body = ''Unable to fetch https://evil.com/x''\<rparr>)"
    unfolding fetch_def len
    by (simp add: sample_request_def u f startsWith_def substring_from_def Let_def)
  have returned: "fetch sample_platform (sample_request ''https://evil.com/x'')
     = Return \<lparr>status = 200, response_headers = [], response_body = ''hello 203.0.113.9''\<rparr>"
    unfolding fetch_def len
    by (simp add: sample_request_def f startsWith_def headers_get_def template_nullable_def Let_def)
  show ?thesis
    by (simp add: thrown returned settle_def)
qed

text \<open>
  Claim C3. When the handler proxies, the request it sends upstream has the method of the
  incoming request and its header entries in their order, without those whose name
  starts with \<^verbatim>\<open>cf-\<close>; no body is sent.
\<close>

theorem fetch_forwards_headers_without_cf:
  assumes "new_URL W (request_url request) = Some u"
    and "startsWith (pathname u) ''/fetch/''"
    and "new_URL W (''https://'' @ substring_from (pathname u) 7) = Some fetchUrl"
    and "origin fetchUrl = ''https://api.cloudflare.com''"
  shows "fetch W request =
           ReturnFetch (''https://'' @ substring_from (pathname u) 7)
             (Some \<lparr>init_method = request_method request,
                    init_headers = filter (\<lambda>h. \<not> startsWith (fst h) ''cf-'') (request_headers request),
                    init_body = None\<rparr>)
             (\<lambda>response. response)"
proof -
  have "pathname u \<noteq> ''/''" and "pathname u \<noteq> ''/app.js''"
    using assms(2) by (auto simp: startsWith_def)
  moreover have "length ''/fetch/'' = 7"
    by simp
  ultimately show ?thesis
    unfolding fetch_def using assms by (simp only: Let_def) simp
qed

theorem fetch_forwards_headers_without_cf_witness:
  "fetch sample_platform
     (sample_request ''https://tail.example/fetch/api.cloudflare.com/client/v4/accounts'') =
   ReturnFetch ''https://api.cloudflare.com/client/v4/accounts''
     (Some \<lparr>init_method = ''GET'',
            init_headers = [(''authorization'', ''Bearer t''), (''content-type'', ''application/json'')],
            init_body = None\<rparr>)
     (\<lambda>response. response)"
proof -
  let ?W = sample_platform
  let ?r1 = "sample_request ''https://tail.example/fetch/api.cloudflare.com/client/v4/accounts''"
  let ?u1 = "\<lparr>href = ''https://tail.example/fetch/api.cloudflare.com/client/v4/accounts'',
              origin = ''https://tail.example'',
              pathname = ''/fetch/api.cloudflare.com/client/v4/accounts''\<rparr>"
  let ?f1 = "\<lparr>href = ''https://api.cloudflare.com/client/v4/accounts'',
              origin = ''https://api.cloudflare.com'', pathname = ''/client/v4/accounts''\<rparr>"
  have a1: "new_URL ?W (request_url ?r1) = Some ?u1"
    by (simp add: sample_platform_def sample_request_def sample_URL_def)
  have a2: "startsWith (pathname ?u1) ''/fetch/''"
    by (simp add: startsWith_def)
  have a3: "new_URL ?W (''https://'' @ substring_from (pathname ?u1) 7) = Some ?f1"
    by (simp add: sample_platform_def sample_URL_def substring_from_def)
  have a4: "origin ?f1 = ''https://api.cloudflare.com''"
    by simp
  show ?thesis
    using fetch_forwards_headers_without_cf [OF a1 a2 a3 a4]
    by (simp add: sample_request_def startsWith_def substring_from_def)
qed

section \<open>Properties of the key-value namespace\<close>

lemma unimplemented_put: "unimplemented Method_put"
  unfolding unimplemented_def
proof (intro allI impI)
  fix A this c assume "method_of c = Method_put"
  then show "\<exists>name. raised A this c = Some (Not_implemented name)"
    by (cases c) (simp_all add: ApiKVNamespace_put_def raised_of_def)
qed

lemma unimplemented_delete: "unimplemented Method_delete"
  unfolding unimplemented_def
proof (intro allI impI)
  fix A this c assume "method_of c = Method_delete"
  then show "\<exists>name. raised A this c = Some (Not_implemented name)"
    by (cases c) (simp_all add: ApiKVNamespace_delete_def raised_of_def)
qed

lemma unimplemented_list: "unimplemented Method_list"
  unfolding unimplemented_def
proof (intro allI impI)
  fix A this c assume "method_of c = Method_list"
  then show "\<exists>name. raised A this c = Some (Not_implemented name)"
    by (cases c) (simp_all add: ApiKVNamespace_list_def raised_of_def)
qed

lemma implemented_get: "\<not> unimplemented Method_get"
proof
  assume "unimplemented Method_get"
  then have "\<exists>name. raised sample_api sample_namespace (Call_get ''absent'' None)
                = Some (Not_implemented name)"
    unfolding unimplemented_def by (metis method_of.simps(1))
  then show False
    by (simp add: ApiKVNamespace_get_def raised_of_def sample_api_def)
qed

lemma implemented_getWithMetadata: "\<not> unimplemented Method_getWithMetadata"
proof
  assume "unimplemented Method_getWithMetadata"
  then have "\<exists>name. raised sample_api sample_namespace (Call_getWithMetadata ''absent'' None)
                = Some (Not_implemented name)"
    unfolding unimplemented_def by (metis method_of.simps(2))
  then show False
    by (simp add: ApiKVNamespace_getWithMetadata_def raised_of_def sample_api_def)
qed

lemma unimplemented_methods:
  "{m. unimplemented m} = {Method_put, Method_delete, Method_list}"
proof -
  have "unimplemented m \<longleftrightarrow> m \<in> {Method_put, Method_delete, Method_list}" for m
    using unimplemented_put unimplemented_delete unimplemented_list
      implemented_get implemented_getWithMetadata
    by (cases m) simp_all
  then show ?thesis by blast
qed

lemma opts_type_json_not_arrayBuffer:
  "opts_type_is opts ''json'' \<Longrightarrow> \<not> opts_type_is opts ''arrayBuffer''"
  by (auto simp: opts_type_is_def split: option.splits)

text \<open>
  Claim C7, as amended. The class has the five methods of the interface. Exactly three of
  them, \<^verbatim>\<open>put\<close>, \<^verbatim>\<open>delete\<close> and \<^verbatim>\<open>list\<close>, throw the error
  \<^verbatim>\<open>not implemented\<close> on every call. The other two are translated into calls of the
  upstream API: \<^verbatim>\<open>get\<close> and \<^verbatim>\<open>getWithMetadata\<close> read the value of the key with
  \<^verbatim>\<open>getKeyValue\<close>, for the account, namespace and token of the object; an error of
  that read is thrown on and a read without bytes gives \<^verbatim>\<open>null\<close>. For the type
  \<^verbatim>\<open>arrayBuffer\<close> the bytes read are returned, for the type \<^verbatim>\<open>json\<close> they are
  decoded and parsed. \<^verbatim>\<open>getWithMetadata\<close> reads the metadata of a key that has a
  value with \<^verbatim>\<open>getKeyMetadata\<close>, throws the error of that read on, and returns
  the metadata, \<^verbatim>\<open>null\<close> in place of a falsy one, with the value.
\<close>

theorem three_methods_unimplemented:
  assumes "value_read = getKeyValue A \<lparr>arg_accountId = ns_accountId this,
              arg_namespaceId = namespaceId this, arg_key = key, arg_apiToken = ns_apiToken this\<rparr>"
    and "metadata_read = getKeyMetadata A (ns_accountId this) (namespaceId this) key (ns_apiToken this)"
  shows
  "{m. unimplemented m} = {Method_put, Method_delete, Method_list}
   \<and> card {m. unimplemented m} = 3
   \<and> (\<forall>e. value_read = Inl e \<longrightarrow>
         ApiKVNamespace_get A this key opts = Inl e
         \<and> ApiKVNamespace_getWithMetadata A this key opts = Inl e)
   \<and> (value_read = Inr None \<longrightarrow>
         ApiKVNamespace_get A this key opts = Inr None
         \<and> ApiKVNamespace_getWithMetadata A this key opts = Inr None)
   \<and> (\<forall>bs. value_read = Inr (Some bs) \<longrightarrow>
         (opts_type_is opts ''arrayBuffer'' \<longrightarrow>
            ApiKVNamespace_get A this key opts = Inr (Some (ArrayBuffer bs)))
       \<and> (opts_type_is opts ''json'' \<longrightarrow>
            ApiKVNamespace_get A this key opts =
              (case JSON_parse A (utf8 A bs) of Inl e \<Rightarrow> Inl e | Inr v \<Rightarrow> Inr (Some (Json v))))
       \<and> (\<forall>e. metadata_read = Inl e \<longrightarrow> ApiKVNamespace_getWithMetadata A this key opts = Inl e)
       \<and> (\<forall>md. metadata_read = Inr md \<longrightarrow>
            (opts_type_is opts ''arrayBuffer'' \<longrightarrow>
               ApiKVNamespace_getWithMetadata A this key opts =
                 Inr (Some \<lparr>kv_value = ArrayBuffer bs, metadata = or_null md\<rparr>))
          \<and> (opts_type_is opts ''json'' \<longrightarrow>
               ApiKVNamespace_getWithMetadata A this key opts =
                 (case JSON_parse A (utf8 A bs) of
                    Inl e \<Rightarrow> Inl e
                  | Inr v \<Rightarrow> Inr (Some \<lparr>kv_value = Json v, metadata = or_null md\<rparr>)))))"
  using assms opts_type_json_not_arrayBuffer [of opts]
  by (auto simp: unimplemented_methods ApiKVNamespace_get_def ApiKVNamespace_getWithMetadata_def)


theorem three_methods_unimplemented_witness:
  "raised sample_api sample_namespace (Call_put ''k'' (PutString ''v'') None)
     = Some (Not_implemented ''put'')
   \<and> ApiKVNamespace_get sample_api sample_namespace ''z''
       (Some \<lparr>opts_type = Some ''arrayBuffer''\<rparr>) = Inr None
   \<and> ApiKVNamespace_get sample_api sample_namespace ''k''
       (Some \<lparr>opts_type = Some ''arrayBuffer''\<rparr>) = Inr (Some (ArrayBuffer [1, 2, 3]))
   \<and> ApiKVNamespace_get (sample_api\<lparr>getKeyValue := \<lambda>args. Inl (Api_error (arg_key args))\<rparr>)
       sample_namespace ''k'' (Some \<lparr>opts_type = Some ''arrayBuffer''\<rparr>) = Inl (Api_error ''k'')
   \<and> ApiKVNamespace_getWithMetadata sample_api sample_namespace ''k''
       (Some \<lparr>opts_type = Some ''arrayBuffer''\<rparr>) = Inl (Api_error ''metadata'')
   \<and> ApiKVNamespace_getWithMetadata
       (sample_api\<lparr>getKeyMetadata := \<lambda>a n k t. Inr (Some (Json_object [(k, Json_string t)]))\<rparr>)
       sample_namespace ''k'' (Some \<lparr>opts_type = Some ''arrayBuffer''\<rparr>)
     = Inr (Some \<lparr>kv_value = ArrayBuffer [1, 2, 3],
                   metadata = Some (Json_object [(''k'', Json_string ''t1'')])\<rparr>)
   \<and> ApiKVNamespace_getWithMetadata
       (sample_api\<lparr>getKeyMetadata := \<lambda>a n k t. Inr (Some (Json_bool False))\<rparr>)
       sample_namespace ''k'' (Some \<lparr>opts_type = Some ''arrayBuffer''\<rparr>)
     = Inr (Some \<lparr>kv_value = ArrayBuffer [1, 2, 3], metadata = None\<rparr>)"
proof -
  let ?ab = "Some \<lparr>opts_type = Some ''arrayBuffer''\<rparr>"
  let ?args = "\<lambda>key. \<lparr>arg_accountId = ns_accountId sample_namespace,
      arg_namespaceId = namespaceId sample_namespace, arg_key = key,
      arg_apiToken = ns_apiToken sample_namespace\<rparr>"
  let ?md = "\<lambda>A key. getKeyMetadata A (ns_accountId sample_namespace) (namespaceId sample_namespace)
      key (ns_apiToken sample_namespace)"
  let ?A1 = "sample_api\<lparr>getKeyValue := \<lambda>args. Inl (Api_error (arg_key args))\<rparr>"
  let ?A2 = "sample_api\<lparr>getKeyMetadata := \<lambda>a n k t. Inr (Some (Json_object [(k, Json_string t)]))\<rparr>"
  let ?A3 = "sample_api\<lparr>getKeyMetadata := \<lambda>a n k t. Inr (Some (Json_bool False))\<rparr>"
  have ty: "opts_type_is ?ab ''arrayBuffer''"
    by (simp add: opts_type_is_def)
  have v0: "getKeyValue sample_api (?args ''z'') = Inr None"
    and v1: "getKeyValue sample_api (?args ''k'') = Inr (Some [1, 2, 3])"
    and v2: "getKeyValue ?A1 (?args ''k'') = Inl (Api_error ''k'')"
    and v3: "getKeyValue ?A2 (?args ''k'') = Inr (Some [1, 2, 3])"
    and v4: "getKeyValue ?A3 (?args ''k'') = Inr (Some [1, 2, 3])"
    by (simp_all add: sample_api_def)
  have m1: "?md sample_api ''k'' = Inl (Api_error ''metadata'')"
    and m3: "?md ?A2 ''k'' = Inr (Some (Json_object [(''k'', Json_string ''t1'')]))"
    and m4: "?md ?A3 ''k'' = Inr (Some (Json_bool False))"
    by (simp_all add: sample_api_def sample_namespace_def)
  have n: "or_null (Some (Json_object [(''k'', Json_string ''t1'')]))
        = Some (Json_object [(''k'', Json_string ''t1'')])"
    "or_null (Some (Json_bool False)) = None"
    by (simp_all add: or_null_def json_truthy_def)
  have "unimplemented Method_put"
    using three_methods_unimplemented [OF refl refl, of sample_api sample_namespace "''k''" ?ab]
    by auto
  then have "\<exists>name. raised sample_api sample_namespace (Call_put ''k'' (PutString ''v'') None)
                = Some (Not_implemented name)"
    unfolding unimplemented_def by (metis method_of.simps(3))
  then have c0: "raised sample_api sample_namespace (Call_put ''k'' (PutString ''v'') None)
     = Some (Not_implemented ''put'')"
    by (simp add: ApiKVNamespace_put_def raised_of_def)
  have c1: "ApiKVNamespace_get sample_api sample_namespace ''z'' ?ab = Inr None"
    using three_methods_unimplemented [OF refl refl, of sample_api sample_namespace "''z''" ?ab] v0
    by simp
  have c2: "ApiKVNamespace_get sample_api sample_namespace ''k'' ?ab
      = Inr (Some (ArrayBuffer [1, 2, 3]))"
    and c4: "ApiKVNamespace_getWithMetadata sample_api sample_namespace ''k'' ?ab
      = Inl (Api_error ''metadata'')"
    using three_methods_unimplemented [OF refl refl, of sample_api sample_namespace "''k''" ?ab]
      v1 m1 ty by simp_all
  have c3: "ApiKVNamespace_get ?A1 sample_namespace ''k'' ?ab = Inl (Api_error ''k'')"
    using three_methods_unimplemented [OF refl refl, of ?A1 sample_namespace "''k''" ?ab] v2
    by simp
  have c5: "ApiKVNamespace_getWithMetadata ?A2 sample_namespace ''k'' ?ab
      = Inr (Some \<lparr>kv_value = ArrayBuffer [1, 2, 3],
                    metadata = Some (Json_object [(''k'', Json_string ''t1'')])\<rparr>)"
    using three_methods_unimplemented [OF refl refl, of ?A2 sample_namespace "''k''" ?ab]
      v3 m3 ty n by simp
  have c6: "ApiKVNamespace_getWithMetadata ?A3 sample_namespace ''k'' ?ab
      = Inr (Some \<lparr>kv_value = ArrayBuffer [1, 2, 3], metadata = None\<rparr>)"
    using three_methods_unimplemented [OF refl refl, of ?A3 sample_namespace "''k''" ?ab]
      v4 m4 ty n by simp
  show ?thesis using c0 c1 c2 c3 c4 c5 c6 by simp
qed

text \<open>The number of methods that throw \<^verbatim>\<open>not implemented\<close> on every call is not two.\<close>

theorem exactly_two_unimplemented_counterexample:
  "card {m. unimplemented m} \<noteq> 2"
  by (simp add: unimplemented_methods)

text \<open>
  Claim C10, as amended. When the upstream read of the key returns no bytes, \<^verbatim>\<open>get\<close>
  and \<^verbatim>\<open>getWithMetadata\<close> return \<^verbatim>\<open>null\<close>, whatever the options. When the read
  returns bytes and the type option is neither \<^verbatim>\<open>arrayBuffer\<close> nor \<^verbatim>\<open>json\<close>,
  \<^verbatim>\<open>get\<close> throws \<^verbatim>\<open>not implemented\<close>; \<^verbatim>\<open>getWithMetadata\<close> first reads the
  metadata of the key, throws \<^verbatim>\<open>not implemented\<close> when that read succeeds and throws
  the error of that read when it fails. Omitted options and the type \<^verbatim>\<open>text\<close> are
  such options.
\<close>

theorem get_absent_null_present_not_implemented:
  "(getKeyValue A \<lparr>arg_accountId = ns_accountId this, arg_namespaceId = namespaceId this,
                    arg_key = key, arg_apiToken = ns_apiToken this\<rparr> = Inr None \<longrightarrow>
      ApiKVNamespace_get A this key opts = Inr None
      \<and> ApiKVNamespace_getWithMetadata A this key opts = Inr None)
   \<and> (\<forall>bs. getKeyValue A \<lparr>arg_accountId = ns_accountId this, arg_namespaceId = namespaceId this,
                    arg_key = key, arg_apiToken = ns_apiToken this\<rparr> = Inr (Some bs)
          \<and> \<not> opts_type_is opts ''arrayBuffer'' \<and> \<not> opts_type_is opts ''json'' \<longrightarrow>
        ApiKVNamespace_get A this key opts = Inl (Not_implemented ''get'')
        \<and> (\<forall>md. getKeyMetadata A (ns_accountId this) (namespaceId this) key (ns_apiToken this) = Inr md
              \<longrightarrow> ApiKVNamespace_getWithMetadata A this key opts
                    = Inl (Not_implemented ''getWithMetadata''))
        \<and> (\<forall>e. getKeyMetadata A (ns_accountId this) (namespaceId this) key (ns_apiToken this) = Inl e
              \<longrightarrow> ApiKVNamespace_getWithMetadata A this key opts = Inl e))
   \<and> \<not> opts_type_is None ''arrayBuffer'' \<and> \<not> opts_type_is None ''json''
   \<and> \<not> opts_type_is (Some \<lparr>opts_type = Some ''text''\<rparr>) ''arrayBuffer''
   \<and> \<not> opts_type_is (Some \<lparr>opts_type = Some ''text''\<rparr>) ''json''"
  by (simp add: ApiKVNamespace_get_def ApiKVNamespace_getWithMetadata_def opts_type_is_def)

theorem get_absent_null_present_not_implemented_witness:
  "ApiKVNamespace_get sample_api sample_namespace ''z'' (Some \<lparr>opts_type = Some ''json''\<rparr>) = Inr None
   \<and> ApiKVNamespace_getWithMetadata sample_api sample_namespace ''z''
         (Some \<lparr>opts_type = Some ''json''\<rparr>) = Inr None
   \<and> ApiKVNamespace_get sample_api sample_namespace ''k'' None = Inl (Not_implemented ''get'')
   \<and> ApiKVNamespace_getWithMetadata (sample_api\<lparr>getKeyMetadata := \<lambda>a n k t. Inr None\<rparr>)
         sample_namespace ''k'' None = Inl (Not_implemented ''getWithMetadata'')
   \<and> ApiKVNamespace_getWithMetadata sample_api sample_namespace ''k'' None
       = Inl (Api_error ''metadata'')"
proof -
  let ?args = "\<lambda>key. \<lparr>arg_accountId = ns_accountId sample_namespace,
      arg_namespaceId = namespaceId sample_namespace, arg_key = key,
      arg_apiToken = ns_apiToken sample_namespace\<rparr>"
  let ?A = "sample_api\<lparr>getKeyMetadata := \<lambda>a n k t. Inr None\<rparr>"
  have absent: "getKeyValue sample_api (?args ''z'') = Inr None"
    and present: "getKeyValue sample_api (?args ''k'') = Inr (Some [1, 2, 3])"
    and present': "getKeyValue ?A (?args ''k'') = Inr (Some [1, 2, 3])"
    by (simp_all add: sample_api_def)
  have md: "getKeyMetadata sample_api (ns_accountId sample_namespace) (namespaceId sample_namespace)
              ''k'' (ns_apiToken sample_namespace) = Inl (Api_error ''metadata'')"
    and md': "getKeyMetadata ?A (ns_accountId sample_namespace) (namespaceId sample_namespace)
              ''k'' (ns_apiToken sample_namespace) = Inr None"
    by (simp_all add: sample_api_def)
  have ty: "\<not> opts_type_is None ''arrayBuffer''" "\<not> opts_type_is None ''json''"
    by (simp_all add: opts_type_is_def)
  show ?thesis
    using get_absent_null_present_not_implemented [of sample_api sample_namespace "''z''" "Some \<lparr>opts_type = Some ''json''\<rparr>"]
      get_absent_null_present_not_implemented [of sample_api sample_namespace "''k''" None]
      get_absent_null_present_not_implemented [of ?A sample_namespace "''k''" None]
      absent present present' md md' ty
    by simp
qed

text \<open>
  The key \<^verbatim>\<open>k\<close> of the sample store is present and the options are omitted, yet
  \<^verbatim>\<open>getWithMetadata\<close> throws the error of the metadata read, not \<^verbatim>\<open>not implemented\<close>.
\<close>

theorem getWithMetadata_metadata_error_counterexample:
  "getKeyValue sample_api \<lparr>arg_accountId = ns_accountId sample_namespace,
      arg_namespaceId = namespaceId sample_namespace, arg_key = ''k'',
      arg_apiToken = ns_apiToken sample_namespace\<rparr> = Inr (Some [1, 2, 3])
   \<and> ApiKVNamespace_getWithMetadata sample_api sample_namespace ''k'' None
       = Inl (Api_error ''metadata'')
   \<and> Api_error ''metadata'' \<noteq> Not_implemented ''getWithMetadata''"
  by (simp add: ApiKVNamespace_getWithMetadata_def sample_api_def)

section \<open>Properties of the config loader\<close>

subsection \<open>Profiles\<close>


lemma findProfile_no_token:
  assumes "parseOptionalStringOption D ''account-id'' options = Inr acc"
    and "parseOptionalStringOption D ''api-token'' options = Inr tok"
    and "tok = None \<or> tok = Some []"
  shows "findProfile D config options script = findProfile_config D config options script"
  using assms by (auto simp: findProfile_def)







lemma findProfile_config_default:
  "options ''profile'' = JUndefined \<Longrightarrow>
   script = None \<or> (\<exists>sc. script = Some sc \<and> (script_profile sc = None \<or> script_profile sc = Some []))
   \<Longrightarrow> findProfile_config D config options script =
         findProfile_default (case profiles config of None \<Rightarrow> [] | Some ps \<Rightarrow> ps)"
  by (auto simp: findProfile_config_def)

lemma findProfile_default_single: "findProfile_default [(n, p)] = Inr (Some (Profile_object p))"
  by (simp add: findProfile_default_def)

lemma findProfile_default_two:
  "default_flag p1 \<noteq> Some True \<Longrightarrow> default_flag p2 \<noteq> Some True \<Longrightarrow>
   findProfile_default [(n1, p1), (n2, p2)] = Inl (Unable_to_find_profile_marked_as_default 2 0)"
  by (simp add: findProfile_default_def)




lemma sample_parse:
  "parseOptionalStringOption sample_deps name options =
     (case options name of JUndefined \<Rightarrow> Inr None | JStr s \<Rightarrow> Inr (Some s) | _ \<Rightarrow> Inl (Thrown name))"
  by (simp add: sample_deps_def)



text \<open>
  Claim C4. Let no \<^verbatim>\<open>api-token\<close> be given, no option \<^verbatim>\<open>profile\<close> and no profile
  declared by a script. If the config has exactly one profile, \<^verbatim>\<open>findProfile\<close> returns
  it, whatever its default flag. If the config has two profiles and none is marked as
  default, \<^verbatim>\<open>findProfile\<close> throws, and so does \<^verbatim>\<open>resolveProfile\<close>.
\<close>

theorem findProfile_single_or_ambiguous:
  assumes "parseOptionalStringOption D ''account-id'' options = Inr acc"
    and "parseOptionalStringOption D ''api-token'' options = Inr tok"
    and "tok = None \<or> tok = Some []"
    and "options ''profile'' = JUndefined"
    and "script = None
      \<or> (\<exists>sc. script = Some sc \<and> (script_profile sc = None \<or> script_profile sc = Some []))"
  shows
    "(\<forall>n p. profiles config = Some [(n, p)] \<longrightarrow>
        findProfile D config options script = Inr (Some (Profile_object p)))
   \<and> (\<forall>n1 p1 n2 p2. profiles config = Some [(n1, p1), (n2, p2)]
          \<and> default_flag p1 \<noteq> Some True \<and> default_flag p2 \<noteq> Some True \<longrightarrow>
        findProfile D config options script
          = Inl (Unable_to_find_profile_marked_as_default 2 0)
        \<and> resolveProfile D config options script
          = Inl (Unable_to_find_profile_marked_as_default 2 0))"
proof -
  have eq: "findProfile D config options script =
      findProfile_default (case profiles config of None \<Rightarrow> [] | Some ps \<Rightarrow> ps)"
    using assms(4,5)
    by (simp add: findProfile_no_token [OF assms(1,2,3)]
        findProfile_config_default [where options = options and script = script])
  show ?thesis
    by (auto simp: eq resolveProfile_def findProfile_default_single findProfile_default_two)
qed

theorem findProfile_single_or_ambiguous_witness:
  "findProfile sample_deps
     \<lparr>profiles = Some [(''only'', \<lparr>accountId = ''a1'', apiToken = ''t1'', default_flag = None\<rparr>)],
      scripts = None\<rparr> no_options None
     = Inr (Some (Profile_object \<lparr>accountId = ''a1'', apiToken = ''t1'', default_flag = None\<rparr>))
   \<and> findProfile sample_deps
     \<lparr>profiles = Some [(''one'', \<lparr>accountId = ''a1'', apiToken = ''t1'', default_flag = None\<rparr>),
                       (''two'', \<lparr>accountId = ''a2'', apiToken = ''t2'', default_flag = Some False\<rparr>)],
      scripts = None\<rparr> no_options None
     = Inl (Unable_to_find_profile_marked_as_default 2 0)"
proof -
  let ?c1 = "\<lparr>profiles = Some [(''only'', \<lparr>accountId = ''a1'', apiToken = ''t1'', default_flag = None\<rparr>)],
      scripts = None\<rparr>"
  let ?c2 = "\<lparr>profiles = Some [(''one'', \<lparr>accountId = ''a1'', apiToken = ''t1'', default_flag = None\<rparr>),
                       (''two'', \<lparr>accountId = ''a2'', apiToken = ''t2'', default_flag = Some False\<rparr>)],
      scripts = None\<rparr>"
  have a: "parseOptionalStringOption sample_deps ''account-id'' no_options = Inr None"
    and t: "parseOptionalStringOption sample_deps ''api-token'' no_options = Inr None"
    by (simp_all add: sample_parse no_options_def)
  have n: "(None :: string option) = None \<or> (None :: string option) = Some []"
    and o: "no_options ''profile'' = JUndefined"
    and s: "(None :: script option) = None
      \<or> (\<exists>sc. (None :: script option) = Some sc
            \<and> (script_profile sc = None \<or> script_profile sc = Some []))"
    by (simp_all add: no_options_def)
  show ?thesis
    using findProfile_single_or_ambiguous [OF a t n o s, of ?c1]
      findProfile_single_or_ambiguous [OF a t n o s, of ?c2]
    by simp
qed

subsection \<open>Bindings\<close>

text \<open>
  Claim C5. Resolving a text binding throws exactly when its value contains
  \<^verbatim>\<open>${localPort}\<close> and no local port is given, or the value after the substitution of
  the local port contains \<^verbatim>\<open>${pushId}\<close> and no push id is given. With a local port,
  what is substituted is its decimal rendering: a non-empty text of digits, without a
  leading zero unless it is \<^verbatim>\<open>0\<close>, whose value to the base ten is the port. It is put
  in the place of the first \<^verbatim>\<open>${localPort}\<close>, and a binding that is returned holds
  the value so obtained, after the substitution of the push id.
\<close>

theorem resolveBinding_text_error_iff:
  "(isl (resolveBinding D (TextBinding v) localPort pushId) \<longleftrightarrow>
      (localPort = None \<and> includes_str v ''${localPort}'')
    \<or> (pushId = None \<and>
         includes_str (case localPort of None \<Rightarrow> v
                       | Some port \<Rightarrow> replace v ''${localPort}'' (toString port)) ''${pushId}''))
   \<and> (\<forall>port. localPort = Some port \<longrightarrow>
         (toString port \<noteq> [] \<and> set (toString port) \<subseteq> set ''0123456789''
          \<and> (hd (toString port) = CHR ''0'' \<longrightarrow> toString port = ''0'')
          \<and> foldl (\<lambda>a c. 10 * a + (of_char c - 48)) 0 (toString port) = port)
       \<and> replace v ''${localPort}'' (toString port) =
           (case indexOf v ''${localPort}'' of
              None \<Rightarrow> v
            | Some i \<Rightarrow> take i v @ toString port @ drop (i + length ''${localPort}'') v)
       \<and> (\<forall>b. resolveBinding D (TextBinding v) localPort pushId = Inr b \<longrightarrow>
             b = TextBinding
                   (case pushId of
                      None \<Rightarrow> replace v ''${localPort}'' (toString port)
                    | Some p \<Rightarrow> replace (replace v ''${localPort}'' (toString port)) ''${pushId}'' p)))"
proof (intro conjI allI impI)
  show "isl (resolveBinding D (TextBinding v) localPort pushId) \<longleftrightarrow>
      (localPort = None \<and> includes_str v ''${localPort}'')
    \<or> (pushId = None \<and>
         includes_str (case localPort of None \<Rightarrow> v
                       | Some port \<Rightarrow> replace v ''${localPort}'' (toString port)) ''${pushId}'')"
    by (auto simp: resolveBinding_def resolveBinding_localPort_def resolveBinding_pushId_def
        split: option.splits)
next
  fix port
  show "toString port \<noteq> []"
    by (rule toString_nonempty)
  show "set (toString port) \<subseteq> set ''0123456789''"
    by (rule toString_digits)
  show "toString port = ''0''" if "hd (toString port) = CHR ''0''"
    using that by (rule toString_leading_zero)
  show "foldl (\<lambda>a c. 10 * a + (of_char c - 48)) 0 (toString port) = port"
    by (rule toString_value)
  show "replace v ''${localPort}'' (toString port) =
           (case indexOf v ''${localPort}'' of
              None \<Rightarrow> v
            | Some i \<Rightarrow> take i v @ toString port @ drop (i + length ''${localPort}'') v)"
    by (rule replace_toString)
next
  fix port b
  assume "localPort = Some port" and "resolveBinding D (TextBinding v) localPort pushId = Inr b"
  then show "b = TextBinding
                   (case pushId of
                      None \<Rightarrow> replace v ''${localPort}'' (toString port)
                    | Some p \<Rightarrow> replace (replace v ''${localPort}'' (toString port)) ''${pushId}'' p)"
    by (auto simp: resolveBinding_def resolveBinding_localPort_def resolveBinding_pushId_def
        split: option.splits if_splits)
qed

theorem resolveBinding_text_error_iff_witness:
  "isl (resolveBinding sample_deps (TextBinding ''http://localhost:${localPort}/'') None None)
   \<and> resolveBinding sample_deps (TextBinding ''http://localhost:${localPort}/'') (Some 8080) None
       = Inr (TextBinding ''http://localhost:8080/'')
   \<and> foldl (\<lambda>a c. 10 * a + (of_char c - 48)) 0 (toString 8080) = (8080 :: nat)"
proof -
  let ?v = "''http://localhost:${localPort}/''"
  have inc: "includes_str ?v ''${localPort}''"
    by code_simp
  have idx: "indexOf ?v ''${localPort}'' = Some 17"
    by code_simp
  have ts: "toString 8080 = ''8080''"
    by (simp add: toString.simps digit_def)
  have rep: "replace ?v ''${localPort}'' (toString 8080) = ''http://localhost:8080/''"
    using resolveBinding_text_error_iff [of sample_deps ?v "Some 8080" None] idx ts by simp
  have val: "foldl (\<lambda>a c. 10 * a + (of_char c - 48)) 0 (toString 8080) = (8080 :: nat)"
    using resolveBinding_text_error_iff [of sample_deps ?v "Some 8080" None] by simp
  have ninc: "\<not> includes_str ''http://localhost:8080/'' ''${pushId}''"
    by code_simp
  have err: "isl (resolveBinding sample_deps (TextBinding ?v) None None)"
    using resolveBinding_text_error_iff [of sample_deps ?v None None] inc by simp
  have "\<not> isl (resolveBinding sample_deps (TextBinding ?v) (Some 8080) None)"
    using resolveBinding_text_error_iff [of sample_deps ?v "Some 8080" None] rep ninc by simp
  then obtain b where b: "resolveBinding sample_deps (TextBinding ?v) (Some 8080) None = Inr b"
    by (cases "resolveBinding sample_deps (TextBinding ?v) (Some 8080) None") auto
  then have "b = TextBinding ''http://localhost:8080/''"
    using resolveBinding_text_error_iff [of sample_deps ?v "Some 8080" None] rep by simp
  with err b val show ?thesis by simp
qed

lemma resolveBinding_localPort_first:
  assumes "\<not> includes_str (pre @ ''${localPort'') ''${localPort}''"
  shows "resolveBinding_localPort (pre @ ''${localPort}'' @ post) (Some port)
           = Inr (pre @ toString port @ post)"
proof -
  have "replace (pre @ ''${localPort}'' @ post) ''${localPort}'' (toString port)
          = pre @ getSubstitution ''${localPort}'' pre post (toString port) @ post"
    using assms by (intro replace_first) simp_all
  then show ?thesis
    by (simp add: resolveBinding_localPort_def getSubstitution_plain toString_plain)
qed

lemma resolveBinding_pushId_first:
  assumes "\<not> includes_str (pre @ ''${pushId'') ''${pushId}''"
  shows "resolveBinding_pushId (pre @ ''${pushId}'' @ post) (Some p)
           = Inr (pre @ getSubstitution ''${pushId}'' pre post p @ post)"
proof -
  have "replace (pre @ ''${pushId}'' @ post) ''${pushId}'' p
          = pre @ getSubstitution ''${pushId}'' pre post p @ post"
    using assms by (intro replace_first) simp_all
  then show ?thesis
    by (simp add: resolveBinding_pushId_def)
qed

text \<open>
  Claim C9. Let \<open>pre\<close> be the text before the first occurrence of a placeholder and
  \<open>post\<close> the text after it, with every later occurrence of the placeholder. With a
  local port, the first \<^verbatim>\<open>${localPort}\<close> is replaced by the digits of the port and
  \<open>post\<close> goes unchanged into the substitution of the push id. With a push id, the
  first \<^verbatim>\<open>${pushId}\<close> of the value left by the first substitution is replaced and
  \<open>post\<close> is returned as it is; what is put in its place is the push id, in which
  the patterns of \<^verbatim>\<open>String.prototype.replace\<close> are expanded, so the push id itself
  when it has no dollar sign.
\<close>

theorem resolveBinding_replaces_first_only:
  "(\<not> includes_str (pre @ ''${localPort'') ''${localPort}'' \<longrightarrow>
      resolveBinding D (TextBinding (pre @ ''${localPort}'' @ post)) (Some port) pushId =
        (case resolveBinding_pushId (pre @ toString port @ post) pushId of
           Inl e \<Rightarrow> Inl e
         | Inr v' \<Rightarrow> Inr (TextBinding v')))
   \<and> (\<not> includes_str (pre @ ''${pushId'') ''${pushId}''
        \<and> resolveBinding_localPort v localPort = Inr (pre @ ''${pushId}'' @ post) \<longrightarrow>
      resolveBinding D (TextBinding v) localPort (Some p) =
        Inr (TextBinding (pre @ getSubstitution ''${pushId}'' pre post p @ post))
      \<and> (CHR ''$'' \<notin> set p \<longrightarrow>
           resolveBinding D (TextBinding v) localPort (Some p) =
             Inr (TextBinding (pre @ p @ post))))"
proof (intro conjI impI)
  assume "\<not> includes_str (pre @ ''${localPort'') ''${localPort}''"
  then have "resolveBinding_localPort (pre @ ''${localPort}'' @ post) (Some port)
      = Inr (pre @ toString port @ post)"
    by (rule resolveBinding_localPort_first)
  then show "resolveBinding D (TextBinding (pre @ ''${localPort}'' @ post)) (Some port) pushId =
        (case resolveBinding_pushId (pre @ toString port @ post) pushId of
           Inl e \<Rightarrow> Inl e
         | Inr v' \<Rightarrow> Inr (TextBinding v'))"
    by (simp only: resolveBinding_def binding.case sum.case)
next
  assume a: "\<not> includes_str (pre @ ''${pushId'') ''${pushId}''
        \<and> resolveBinding_localPort v localPort = Inr (pre @ ''${pushId}'' @ post)"
  then have "resolveBinding_pushId (pre @ ''${pushId}'' @ post) (Some p)
      = Inr (pre @ getSubstitution ''${pushId}'' pre post p @ post)"
    by (intro resolveBinding_pushId_first) simp
  with a show r: "resolveBinding D (TextBinding v) localPort (Some p) =
        Inr (TextBinding (pre @ getSubstitution ''${pushId}'' pre post p @ post))"
    by (simp only: resolveBinding_def binding.case sum.case)
  show "resolveBinding D (TextBinding v) localPort (Some p) = Inr (TextBinding (pre @ p @ post))"
    if "CHR ''$'' \<notin> set p"
    using r getSubstitution_plain [OF that, of "''${pushId}''" pre post] by (simp only:)
qed

theorem resolveBinding_replaces_first_only_witness:
  "resolveBinding sample_deps (TextBinding ''${localPort},${localPort}'') (Some 8080) None
     = Inr (TextBinding ''8080,${localPort}'')
   \<and> resolveBinding sample_deps (TextBinding ''a-${pushId}-${pushId}'') None (Some ''p1'')
     = Inr (TextBinding ''a-p1-${pushId}'')"
proof -
  have f1: "\<not> includes_str ([] @ ''${localPort'') ''${localPort}''"
    by code_simp
  have ts: "toString 8080 = ''8080''"
    by (simp add: toString.simps digit_def)
  have s2: "resolveBinding_pushId ''8080,${localPort}'' None = Inr ''8080,${localPort}''"
    by code_simp
  have f2: "\<not> includes_str (''a-'' @ ''${pushId'') ''${pushId}''"
    by code_simp
  have s1: "resolveBinding_localPort ''a-${pushId}-${pushId}'' None
      = Inr (''a-'' @ ''${pushId}'' @ ''-${pushId}'')"
    by code_simp
  have pl: "CHR ''$'' \<notin> set ''p1''"
    by simp
  have c1: "resolveBinding sample_deps (TextBinding ''${localPort},${localPort}'') (Some 8080) None
     = Inr (TextBinding ''8080,${localPort}'')"
    using resolveBinding_replaces_first_only
      [of "[]" sample_deps "'',${localPort}''" 8080 None] f1 ts s2
    by simp
  have c2: "resolveBinding sample_deps (TextBinding ''a-${pushId}-${pushId}'') None (Some ''p1'')
     = Inr (TextBinding ''a-p1-${pushId}'')"
    using resolveBinding_replaces_first_only
      [where pre = "''a-''" and post = "''-${pushId}''" and v = "''a-${pushId}-${pushId}''"
         and localPort = None and p = "''p1''" and D = sample_deps] f2 s1 pl
    by simp
  show ?thesis using c1 c2 by simp
qed

subsection \<open>Loading the config\<close>

lemma findConfigFilePath_loop_env:
  "findConfigFilePath_loop (D\<lparr>env_get := g\<rparr>) dir = findConfigFilePath_loop D dir"
proof (induction D dir rule: findConfigFilePath_loop.induct)
  case (1 D dir)
  show ?case
  proof (cases "fileExists D (join dir CONFIG_FILE_NAME)")
    case (Inl e)
    then show ?thesis
      by (subst (1 2) findConfigFilePath_loop.simps) simp
  next
    case (Inr found)
    then show ?thesis
      using 1 [OF refl Inr _ refl]
      by (subst (1 2) findConfigFilePath_loop.simps) (simp add: Let_def)
  qed
qed

lemma findConfigFilePath_env:
  "findConfigFilePath (D\<lparr>env_get := g\<rparr>) verbose = findConfigFilePath D verbose"
proof -
  have "findConfigFilePath_try (D\<lparr>env_get := g\<rparr>) = findConfigFilePath_try D"
    by (cases "cwd D") (simp_all add: findConfigFilePath_try_def findConfigFilePath_loop_env)
  then show ?thesis
    by (simp add: findConfigFilePath_def)
qed

lemma loadConfigFromFile_env:
  "loadConfigFromFile (D\<lparr>env_get := g\<rparr>) path = loadConfigFromFile D path"
  by (cases "readTextFile D path") (simp_all add: loadConfigFromFile_def split: prod.splits)

lemma loadConfig_file_env:
  "loadConfig_file (D\<lparr>env_get := g\<rparr>) options = loadConfig_file D options"
  unfolding loadConfig_file_def findConfigFilePath_env loadConfigFromFile_env
  by (rule refl)

lemma findConfigFilePath_loop_raises:
  assumes "k \<le> length dir"
    and "fileExists D (join (take k dir) CONFIG_FILE_NAME) = Inl e"
    and "\<forall>j. k < j \<and> j \<le> length dir \<longrightarrow>
           fileExists D (join (take j dir) CONFIG_FILE_NAME) = Inr False"
  shows "findConfigFilePath_loop D dir = Inl e"
  using assms
proof (induction dir rule: rev_induct)
  case Nil
  then show ?case
    by (subst findConfigFilePath_loop.simps) simp
next
  case (snoc x xs)
  show ?case
  proof (cases "k = length (xs @ [x])")
    case True
    then show ?thesis
      using snoc.prems(2) by (subst findConfigFilePath_loop.simps) simp
  next
    case False
    then have k: "k \<le> length xs"
      using snoc.prems(1) by simp
    have here: "fileExists D (join (xs @ [x]) CONFIG_FILE_NAME) = Inr False"
      using snoc.prems(3) False snoc.prems(1)
      by (metis le_neq_implies_less order_refl take_all)
    have up: "findConfigFilePath_loop D xs = Inl e"
    proof (rule snoc.IH [OF k])
      show "fileExists D (join (take k xs) CONFIG_FILE_NAME) = Inl e"
        using snoc.prems(2) k by simp
      show "\<forall>j. k < j \<and> j \<le> length xs \<longrightarrow>
           fileExists D (join (take j xs) CONFIG_FILE_NAME) = Inr False"
        using snoc.prems(3) by auto
    qed
    show ?thesis
      using here up
      by (subst findConfigFilePath_loop.simps) (simp add: resolve_parent_def)
  qed
qed


lemma loadConfig_no_profiles:
  assumes "loadConfig_file D options = Inr config" and "Object_keys (profiles config) = []"
  shows "loadConfig D options =
           (case loadConfig_env_try D config of
              Inl e \<Rightarrow> if is_PermissionDenied e then Inr config else Inl e
            | Inr config' \<Rightarrow> Inr config')"
  using assms by (simp add: loadConfig_def)

text \<open>
  Claim C6. Let the config file give \<open>config\<close>. If it has a profile, \<^verbatim>\<open>loadConfig\<close>
  returns \<open>config\<close> as it is, whatever reading the environment would do: the
  environment is not consulted. If it has no profile and both variables can be read:
  when both are non-empty after trimming, the result is \<open>config\<close> with the single
  profile \<^verbatim>\<open>env\<close> of the two trimmed values; otherwise it is \<open>config\<close>.
\<close>

theorem loadConfig_env_only_without_profiles:
  assumes "loadConfig_file D options = Inr config"
  shows "(Object_keys (profiles config) \<noteq> [] \<longrightarrow>
            (\<forall>g. loadConfig (D\<lparr>env_get := g\<rparr>) options = Inr config))
       \<and> (Object_keys (profiles config) = [] \<longrightarrow>
            (\<forall>a t. env_get D ''CF_ACCOUNT_ID'' = Inr a \<and> env_get D ''CF_API_TOKEN'' = Inr t \<longrightarrow>
               (trim (or_empty a) \<noteq> [] \<and> trim (or_empty t) \<noteq> [] \<longrightarrow>
                  loadConfig D options =
                    Inr (config\<lparr>profiles :=
                           Some [(''env'', \<lparr>accountId = trim (or_empty a),
                                            apiToken = trim (or_empty t),
                                            default_flag = None\<rparr>)]\<rparr>))
             \<and> (trim (or_empty a) = [] \<or> trim (or_empty t) = [] \<longrightarrow>
                  loadConfig D options = Inr config)))"
proof (intro conjI impI allI)
  fix g
  assume "Object_keys (profiles config) \<noteq> []"
  then show "loadConfig (D\<lparr>env_get := g\<rparr>) options = Inr config"
    using assms by (simp add: loadConfig_def loadConfig_file_env)
next
  fix a t
  assume z: "Object_keys (profiles config) = []"
    and e: "env_get D ''CF_ACCOUNT_ID'' = Inr a \<and> env_get D ''CF_API_TOKEN'' = Inr t"
  show "loadConfig D options =
          Inr (config\<lparr>profiles :=
                 Some [(''env'', \<lparr>accountId = trim (or_empty a), apiToken = trim (or_empty t),
                                  default_flag = None\<rparr>)]\<rparr>)"
    if "trim (or_empty a) \<noteq> [] \<and> trim (or_empty t) \<noteq> []"
    using that e by (simp add: loadConfig_no_profiles [OF assms z] loadConfig_env_try_def)
  show "loadConfig D options = Inr config"
    if "trim (or_empty a) = [] \<or> trim (or_empty t) = []"
    using that e by (auto simp: loadConfig_no_profiles [OF assms z] loadConfig_env_try_def)
qed

theorem loadConfig_env_only_without_profiles_witness:
  "loadConfig (sample_deps\<lparr>env_get := \<lambda>name. Inl (Thrown name)\<rparr>) no_options = Inr sample_config
   \<and> loadConfig
        (sample_deps\<lparr>cwd := Inr [],
           fileExists := \<lambda>path. Inr False,
           env_get := \<lambda>name. if name = ''CF_ACCOUNT_ID'' then Inr (Some '' acct1 '')
                               else if name = ''CF_API_TOKEN'' then Inr (Some ''tok1'')
                               else Inr None\<rparr>) no_options
       = Inr \<lparr>profiles = Some [(''env'', \<lparr>accountId = ''acct1'', apiToken = ''tok1'',
                                           default_flag = None\<rparr>)],
              scripts = None\<rparr>"
proof -
  let ?D = "sample_deps\<lparr>cwd := Inr [],
           fileExists := \<lambda>path. Inr False,
           env_get := \<lambda>name. if name = ''CF_ACCOUNT_ID'' then Inr (Some '' acct1 '')
                               else if name = ''CF_API_TOKEN'' then Inr (Some ''tok1'')
                               else Inr None\<rparr>"
  have f1: "loadConfig_file sample_deps no_options = Inr sample_config"
    by (simp add: loadConfig_file_def findConfigFilePath_def findConfigFilePath_try_def
        findConfigFilePath_loop.simps loadConfigFromFile_def sample_deps_def no_options_def
        join_def render_path_def CONFIG_FILE_NAME_def resolve_parent_def truthy_def)
  have k1: "Object_keys (profiles sample_config) \<noteq> []"
    by (simp add: Object_keys_def sample_config_def sample_profiles_def)
  have f2: "loadConfig_file ?D no_options = Inr empty_config"
    by (simp add: loadConfig_file_def findConfigFilePath_def findConfigFilePath_try_def
        findConfigFilePath_loop.simps sample_deps_def no_options_def
        join_def render_path_def CONFIG_FILE_NAME_def resolve_parent_def truthy_def)
  have k2: "Object_keys (profiles empty_config) = []"
    by (simp add: Object_keys_def empty_config_def)
  have e2: "env_get ?D ''CF_ACCOUNT_ID'' = Inr (Some '' acct1 '')
      \<and> env_get ?D ''CF_API_TOKEN'' = Inr (Some ''tok1'')"
    by simp
  have tr: "trim (or_empty (Some '' acct1 '')) = ''acct1''" "trim (or_empty (Some ''tok1'')) = ''tok1''"
    by (simp_all add: trim_def or_empty_def isWhiteSpace_def)
  show ?thesis
    using loadConfig_env_only_without_profiles [OF f1] k1
      loadConfig_env_only_without_profiles [OF f2] k2 e2 tr
    by (simp add: empty_config_def)
qed

text \<open>
  Claim C8. Let an error \<open>e\<close> be thrown by reading \<^verbatim>\<open>CF_ACCOUNT_ID\<close> or
  \<^verbatim>\<open>CF_API_TOKEN\<close> (for a config without profiles), by \<^verbatim>\<open>Deno.cwd()\<close>, or by the
  test for the config file in the working directory or one of its ancestors, the
  directories below it not having the file. If \<open>e\<close> is a permission-denied error,
  \<^verbatim>\<open>loadConfig\<close> returns the config without a profile from the environment, and
  \<^verbatim>\<open>findConfigFilePath\<close> returns \<^verbatim>\<open>undefined\<close>; every other error is thrown on.
\<close>

theorem permission_denied_is_absent:
  "(\<forall>config. loadConfig_file D options = Inr config \<and> Object_keys (profiles config) = []
       \<and> (env_get D ''CF_ACCOUNT_ID'' = Inl e
          \<or> (\<exists>a. env_get D ''CF_ACCOUNT_ID'' = Inr a \<and> env_get D ''CF_API_TOKEN'' = Inl e)) \<longrightarrow>
       loadConfig D options = (if is_PermissionDenied e then Inr config else Inl e))
   \<and> (cwd D = Inl e \<longrightarrow>
        findConfigFilePath D verbose = (if is_PermissionDenied e then Inr None else Inl e))
   \<and> (\<forall>dir k. cwd D = Inr dir \<and> k \<le> length dir
          \<and> fileExists D (join (take k dir) CONFIG_FILE_NAME) = Inl e
          \<and> (\<forall>j. k < j \<and> j \<le> length dir \<longrightarrow>
                 fileExists D (join (take j dir) CONFIG_FILE_NAME) = Inr False) \<longrightarrow>
        findConfigFilePath D verbose = (if is_PermissionDenied e then Inr None else Inl e))"
proof (intro conjI impI allI)
  fix config
  assume a: "loadConfig_file D options = Inr config \<and> Object_keys (profiles config) = []
       \<and> (env_get D ''CF_ACCOUNT_ID'' = Inl e
          \<or> (\<exists>a. env_get D ''CF_ACCOUNT_ID'' = Inr a \<and> env_get D ''CF_API_TOKEN'' = Inl e))"
  then have "loadConfig_env_try D config = Inl e"
    by (auto simp: loadConfig_env_try_def)
  then show "loadConfig D options = (if is_PermissionDenied e then Inr config else Inl e)"
    using a by (simp add: loadConfig_no_profiles [of D options config])
next
  assume "cwd D = Inl e"
  then have "findConfigFilePath_try D = Inl e"
    by (simp add: findConfigFilePath_try_def)
  then show "findConfigFilePath D verbose = (if is_PermissionDenied e then Inr None else Inl e)"
    by (simp add: findConfigFilePath_def)
next
  fix dir k
  assume a: "cwd D = Inr dir \<and> k \<le> length dir
          \<and> fileExists D (join (take k dir) CONFIG_FILE_NAME) = Inl e
          \<and> (\<forall>j. k < j \<and> j \<le> length dir \<longrightarrow>
                 fileExists D (join (take j dir) CONFIG_FILE_NAME) = Inr False)"
  then have "findConfigFilePath_loop D dir = Inl e"
    using findConfigFilePath_loop_raises [of k dir D e] by blast
  with a have "findConfigFilePath_try D = Inl e"
    by (simp add: findConfigFilePath_try_def)
  then show "findConfigFilePath D verbose = (if is_PermissionDenied e then Inr None else Inl e)"
    by (simp add: findConfigFilePath_def)
qed

theorem permission_denied_is_absent_witness:
  "loadConfig (sample_deps\<lparr>cwd := Inl (PermissionDenied ''cwd''),
                 env_get := \<lambda>name. Inl (PermissionDenied name)\<rparr>) no_options = Inr empty_config
   \<and> findConfigFilePath (sample_deps\<lparr>cwd := Inl (PermissionDenied ''cwd'')\<rparr>) False = Inr None
   \<and> findConfigFilePath (sample_deps\<lparr>cwd := Inl (Thrown ''cwd'')\<rparr>) False = Inl (Thrown ''cwd'')
   \<and> findConfigFilePath
        (sample_deps\<lparr>fileExists := \<lambda>path. if path = ''/home/user/project/.denoflare''
                                             then Inr False else Inl (PermissionDenied path)\<rparr>)
        False = Inr None"
proof -
  let ?D1 = "sample_deps\<lparr>cwd := Inl (PermissionDenied ''cwd''),
                 env_get := \<lambda>name. Inl (PermissionDenied name)\<rparr>"
  let ?D2 = "sample_deps\<lparr>cwd := Inl (PermissionDenied ''cwd'')\<rparr>"
  let ?D3 = "sample_deps\<lparr>cwd := Inl (Thrown ''cwd'')\<rparr>"
  let ?D4 = "sample_deps\<lparr>fileExists := \<lambda>path. if path = ''/home/user/project/.denoflare''
                                             then Inr False else Inl (PermissionDenied path)\<rparr>"
  have c2: "cwd ?D2 = Inl (PermissionDenied ''cwd'')" and c3: "cwd ?D3 = Inl (Thrown ''cwd'')"
    by simp_all
  have r2: "findConfigFilePath ?D2 False = Inr None"
    using permission_denied_is_absent [of ?D2 no_options "PermissionDenied ''cwd''" False] c2
    by (simp add: is_PermissionDenied_def)
  have r3: "findConfigFilePath ?D3 False = Inl (Thrown ''cwd'')"
    using permission_denied_is_absent [of ?D3 no_options "Thrown ''cwd''" False] c3
    by (simp add: is_PermissionDenied_def)
  have f1: "loadConfig_file ?D1 no_options = Inr empty_config"
    by (simp add: loadConfig_file_def findConfigFilePath_def findConfigFilePath_try_def
        no_options_def is_PermissionDenied_def)
  have k1: "Object_keys (profiles empty_config) = []"
    by (simp add: Object_keys_def empty_config_def)
  have e1: "env_get ?D1 ''CF_ACCOUNT_ID'' = Inl (PermissionDenied ''CF_ACCOUNT_ID'')"
    by simp
  have r1: "loadConfig ?D1 no_options = Inr empty_config"
    using permission_denied_is_absent [of ?D1 no_options "PermissionDenied ''CF_ACCOUNT_ID''" False]
      f1 k1 e1
    by (simp add: is_PermissionDenied_def)
  have d4: "cwd ?D4 = Inr [''home'', ''user'', ''project'']"
    by (simp add: sample_deps_def)
  have x4: "fileExists ?D4 (join (take 2 [''home'', ''user'', ''project'']) CONFIG_FILE_NAME)
      = Inl (PermissionDenied ''/home/user/.denoflare'')"
    by (simp add: join_def render_path_def CONFIG_FILE_NAME_def)
  have y4: "\<forall>j. 2 < j \<and> j \<le> length [''home'', ''user'', ''project''] \<longrightarrow>
      fileExists ?D4 (join (take j [''home'', ''user'', ''project'']) CONFIG_FILE_NAME) = Inr False"
  proof (intro allI impI)
    fix j :: nat
    assume "2 < j \<and> j \<le> length [''home'', ''user'', ''project'']"
    then have "j = 3" by simp
    then show "fileExists ?D4 (join (take j [''home'', ''user'', ''project'']) CONFIG_FILE_NAME)
        = Inr False"
      by (simp add: join_def render_path_def CONFIG_FILE_NAME_def)
  qed
  have len: "2 \<le> length [''home'', ''user'', ''project'']"
    by simp
  have pre: "cwd ?D4 = Inr [''home'', ''user'', ''project'']
      \<and> 2 \<le> length [''home'', ''user'', ''project'']
      \<and> fileExists ?D4 (join (take 2 [''home'', ''user'', ''project'']) CONFIG_FILE_NAME)
          = Inl (PermissionDenied ''/home/user/.denoflare'')
      \<and> (\<forall>j. 2 < j \<and> j \<le> length [''home'', ''user'', ''project''] \<longrightarrow>
            fileExists ?D4 (join (take j [''home'', ''user'', ''project'']) CONFIG_FILE_NAME)
              = Inr False)"
    using d4 len x4 y4 by blast
  have "findConfigFilePath ?D4 False =
      (if is_PermissionDenied (PermissionDenied ''/home/user/.denoflare'') then Inr None
       else Inl (PermissionDenied ''/home/user/.denoflare''))"
    using permission_denied_is_absent
      [of ?D4 no_options "PermissionDenied ''/home/user/.denoflare''" False,
        THEN conjunct2, THEN conjunct2, rule_format, OF pre] .
  then have r4: "findConfigFilePath ?D4 False = Inr None"
    by (simp add: is_PermissionDenied_def)
  show ?thesis using r1 r2 r3 r4 by simp
qed

end
